theory Spec2Isabelle
  imports Main
begin

section \<open>JavaScript values\<close>

text \<open>
  An optional string of the source (\<^verbatim>\<open>string | undefined | null\<close>) is a
  \<open>string option\<close>. JavaScript tests such a value for truthiness: \<^verbatim>\<open>undefined\<close>,
  \<^verbatim>\<open>null\<close> and the empty string are falsy, every other string is truthy.
\<close>

definition truthy :: "string option \<Rightarrow> bool" where
  "truthy v = (case v of None \<Rightarrow> False | Some s \<Rightarrow> s \<noteq> [])"

text \<open>\<^verbatim>\<open>a || b\<close> on an optional string with a string default.\<close>

definition or_default :: "string option \<Rightarrow> string \<Rightarrow> string" where
  "or_default v d = (case v of None \<Rightarrow> d | Some s \<Rightarrow> if s = [] then d else s)"

text \<open>\<^verbatim>\<open>xs.join(sep)\<close>.\<close>

fun join :: "string \<Rightarrow> string list \<Rightarrow> string" where
  "join sep [] = []"
| "join sep [x] = x"
| "join sep (x # y # ys) = x @ sep @ join sep (y # ys)"

text \<open>
  A string is the list of the bytes of its UTF-8 encoding. \<open>whiteSpace\<close> lists the
  encodings of the characters \<^verbatim>\<open>s.trim()\<close> removes: the white space and line terminator
  characters of the language (tab, line feed, vertical tab, form feed, carriage return,
  space, U+00A0, U+1680, U+2000 to U+200A, U+2028, U+2029, U+202F, U+205F, U+3000 and
  U+FEFF).
\<close>

definition whiteSpace :: "string list" where
  "whiteSpace =
     [[CHR 0x09], [CHR 0x0A], [CHR 0x0B], [CHR 0x0C], [CHR 0x0D], [CHR 0x20],
      [CHR 0xC2, CHR 0xA0], [CHR 0xE1, CHR 0x9A, CHR 0x80],
      [CHR 0xE2, CHR 0x80, CHR 0x80], [CHR 0xE2, CHR 0x80, CHR 0x81],
      [CHR 0xE2, CHR 0x80, CHR 0x82], [CHR 0xE2, CHR 0x80, CHR 0x83],
      [CHR 0xE2, CHR 0x80, CHR 0x84], [CHR 0xE2, CHR 0x80, CHR 0x85],
      [CHR 0xE2, CHR 0x80, CHR 0x86], [CHR 0xE2, CHR 0x80, CHR 0x87],
      [CHR 0xE2, CHR 0x80, CHR 0x88], [CHR 0xE2, CHR 0x80, CHR 0x89],
      [CHR 0xE2, CHR 0x80, CHR 0x8A], [CHR 0xE2, CHR 0x80, CHR 0xA8],
      [CHR 0xE2, CHR 0x80, CHR 0xA9], [CHR 0xE2, CHR 0x80, CHR 0xAF],
      [CHR 0xE2, CHR 0x81, CHR 0x9F], [CHR 0xE3, CHR 0x80, CHR 0x80],
      [CHR 0xEF, CHR 0xBB, CHR 0xBF]]"

text \<open>
  \<open>strip es s\<close> removes from the front of \<open>s\<close> every leading occurrence of one of the
  byte sequences \<open>es\<close>. Trimming the end strips the reversed encodings from the
  reversed string; in UTF-8 a string that ends with the bytes of a character ends with
  that character.
\<close>

fun strip :: "string list \<Rightarrow> string \<Rightarrow> string" where
  "strip es [] = []"
| "strip es (c # cs) =
     (case find (\<lambda>e. e \<noteq> [] \<and> take (length e) (c # cs) = e) es of
        None \<Rightarrow> c # cs
      | Some e \<Rightarrow> strip es (drop (length e - 1) cs))"

definition trim :: "string \<Rightarrow> string" where
  "trim s = rev (strip (map rev whiteSpace) (rev (strip whiteSpace s)))"

definition nl :: string where
  "nl = [CHR 0x0A]"

subsection \<open>Dates\<close>

text \<open>
  A \<^verbatim>\<open>Date\<close> holds a time value: a whole number of milliseconds since
  1970-01-01T00:00:00Z, at most 8.64e15 on either side of it, or \<^verbatim>\<open>NaN\<close> (an Invalid
  Date). \<open>Valid t\<close> is the date with the time value \<open>t\<close>; \<open>Invalid\<close>, and any \<open>Valid t\<close>
  with \<open>t\<close> beyond the limit, is an Invalid Date. A number that may be \<^verbatim>\<open>NaN\<close> is an
  \<open>int option\<close>, with \<open>None\<close> for \<^verbatim>\<open>NaN\<close>.
\<close>

datatype error = Error string | RangeError

datatype Date = Valid int | Invalid

definition maxTime :: int where
  "maxTime = 8640000000000000"

text \<open>\<^verbatim>\<open>d.getTime()\<close>.\<close>

definition getTime :: "Date \<Rightarrow> int option" where
  "getTime d = (case d of
                  Valid t \<Rightarrow> if \<bar>t\<bar> \<le> maxTime then Some t else None
                | Invalid \<Rightarrow> None)"

text \<open>\<^verbatim>\<open>new Date(v)\<close> for a number \<open>v\<close>: beyond the limit the date is invalid.\<close>

definition new_Date :: "int option \<Rightarrow> Date" where
  "new_Date v = (case v of
                   None \<Rightarrow> Invalid
                 | Some t \<Rightarrow> if \<bar>t\<bar> \<le> maxTime then Valid t else Invalid)"

definition digit :: "int \<Rightarrow> char" where
  "digit n = ''0123456789'' ! nat (n mod 10)"

text \<open>The last \<open>w\<close> decimal digits of a number, padded with zeros.\<close>

fun pad :: "nat \<Rightarrow> int \<Rightarrow> string" where
  "pad 0 n = []"
| "pad (Suc w) n = pad w (n div 10) @ [digit n]"

text \<open>
  The civil date (year, month, day) of a day number counted from 1970-01-01, in the
  proleptic Gregorian calendar, as the language standard defines it for
  \<^verbatim>\<open>toISOString\<close>.
\<close>

definition civil :: "int \<Rightarrow> int \<times> int \<times> int" where
  "civil days =
     (let z = days + 719468;
          era = z div 146097;
          doe = z - era * 146097;
          yoe = (doe - doe div 1460 + doe div 36524 - doe div 146096) div 365;
          doy = doe - (365 * yoe + yoe div 4 - yoe div 100);
          mp = (5 * doy + 2) div 153;
          d = doy - (153 * mp + 2) div 5 + 1;
          m = (if mp < 10 then mp + 3 else mp - 9);
          y = yoe + era * 400 + (if m \<le> 2 then 1 else 0)
      in (y, m, d))"

text \<open>The ISO text of a time value.\<close>

definition isoString :: "int \<Rightarrow> string" where
  "isoString t =
     (let day = t div 86400000;
          ms = t mod 86400000;
          (y, m, d) = civil day;
          year = (if 0 \<le> y \<and> y \<le> 9999 then pad 4 y
                  else (if y < 0 then ''-'' else ''+'') @ pad 6 \<bar>y\<bar>)
      in year @ ''-'' @ pad 2 m @ ''-'' @ pad 2 d @ ''T''
         @ pad 2 (ms div 3600000) @ '':'' @ pad 2 (ms div 60000 mod 60) @ '':''
         @ pad 2 (ms div 1000 mod 60) @ ''.'' @ pad 3 (ms mod 1000) @ ''Z'')"

text \<open>\<^verbatim>\<open>d.toISOString()\<close> throws a \<^verbatim>\<open>RangeError\<close> on an Invalid Date.\<close>

definition toISOString :: "Date \<Rightarrow> error + string" where
  "toISOString d = (case getTime d of
                      None \<Rightarrow> Inl RangeError
                    | Some t \<Rightarrow> Inr (isoString t))"

text \<open>\<^verbatim>\<open>s.split('T')[0]\<close>: the text before the first \<open>T\<close>.\<close>

definition beforeT :: "string \<Rightarrow> string" where
  "beforeT s = takeWhile (\<lambda>c. c \<noteq> CHR ''T'') s"

section \<open>Configuration and context (types/config.ts)\<close>

record MsConfig =
  ms_clientId :: string
  ms_tenantId :: string
  ms_clientSecret :: string
  ms_enabled :: bool

record AsanaConfig =
  as_accessToken :: string
  as_workspaceId :: "string option"
  as_projectId :: "string option"
  as_enabled :: bool

record SyncSettings =
  syncContributors :: bool
  syncWorkflowSteps :: bool
  createCalendarEvents :: bool
  createTasks :: bool

record AppConfig =
  microsoft365 :: "MsConfig option"
  asana :: "AsanaConfig option"
  syncSettings :: "SyncSettings option"

record SyncContext =
  contentItemId :: string
  languageId :: string
  workflowStep :: "string option"
  contributors :: "string list option"
  dueDate :: "Date option"
  title :: "string option"

section \<open>The network\<close>

text \<open>
  The two remote systems are outside the program. Every request the adapters send is
  appended to a log, and the answer to a request is given by an oracle that sees the
  requests sent before it, so that the same request may be answered differently at
  different times. An answer is either a thrown error or the values the adapters read
  from the reply.
\<close>

record Event =
  subject :: string
  body_contentType :: string
  body_content :: string
  start_dateTime :: string
  start_timeZone :: string
  end_dateTime :: string
  end_timeZone :: string
  isReminderOn :: "bool option"
  reminderMinutesBeforeStart :: "int option"

record TaskData =
  td_name :: string
  td_notes :: string
  td_due_on :: "string option"
  td_projects :: "string list option"
  td_workspace :: "string option"
  td_assignee :: "string option"

text \<open>
  \<open>GraphPost path event\<close> is \<^verbatim>\<open>client.api(path).post(event)\<close>, \<open>GraphPatch\<close> is
  \<^verbatim>\<open>.patch(event)\<close>; \<open>AsanaFetch method url token body\<close> is the \<^verbatim>\<open>fetch\<close> of
  \<^verbatim>\<open>AsanaService.makeRequest\<close> with its bearer token and the \<^verbatim>\<open>data\<close> member of
  its JSON body.
\<close>

datatype request =
    GraphPost string Event
  | GraphPatch string Event
  | AsanaFetch string string string "TaskData option"

text \<open>
  What the Asana adapter reads from a reply (after \<^verbatim>\<open>data.data || data\<close>): its
  \<^verbatim>\<open>gid\<close>, its \<^verbatim>\<open>workspace?.gid\<close>, and, when the reply is an array, the
  \<^verbatim>\<open>email\<close> and \<^verbatim>\<open>gid\<close> of each element.
\<close>

record AsanaData =
  d_gid :: "string option"
  d_workspace_gid :: "string option"
  d_users :: "(string option \<times> string option) list option"

text \<open>
  \<open>graph\<close> answers a Graph request with the \<^verbatim>\<open>id\<close> of the returned entity, or
  rejects; \<open>asana\<close> answers a \<^verbatim>\<open>fetch\<close> with the parsed reply, or throws (network
  error, a status that is not ok, unparsable JSON).
\<close>

record World =
  graph :: "request list \<Rightarrow> request \<Rightarrow> error + string option"
  asana_api :: "request list \<Rightarrow> request \<Rightarrow> error + AsanaData"

section \<open>Microsoft365Service (services/microsoft365.service.ts)\<close>

text \<open>
  The version of the adapter that talks to Microsoft Graph through a client object. The
  client holds the access token it was initialised with.
\<close>

datatype Client = Client "string option"

record Microsoft365Service =
  ms_client :: "Client option"
  ms_config :: "MsConfig option"

text \<open>
  The constructor stores the configuration and leaves \<^verbatim>\<open>client\<close> null; when the
  configuration is enabled and complete it starts \<^verbatim>\<open>initializeClient\<close> without awaiting
  it. \<open>initializeClient\<close> takes the outcome of the token request (an error, or the
  \<^verbatim>\<open>access_token\<close> of the reply): on a reply the client is set, on an error it stays
  null. \<open>Microsoft365Service_ready\<close> is the service once that initialisation, if the
  constructor started one, has settled.
\<close>

definition Microsoft365Service_new :: "MsConfig option \<Rightarrow> Microsoft365Service" where
  "Microsoft365Service_new cfg = \<lparr>ms_client = None, ms_config = cfg\<rparr>"

definition startsInitialization :: "MsConfig option \<Rightarrow> bool" where
  "startsInitialization cfg =
     (case cfg of
        None \<Rightarrow> False
      | Some c \<Rightarrow> ms_enabled c \<and> ms_clientId c \<noteq> [] \<and> ms_tenantId c \<noteq> []
                 \<and> ms_clientSecret c \<noteq> [])"

definition initializeClient ::
  "Microsoft365Service \<Rightarrow> error + string option \<Rightarrow> Microsoft365Service" where
  "initializeClient svc token =
     (case ms_config svc of
        None \<Rightarrow> svc
      | Some cfg \<Rightarrow>
         (case token of
            Inl e \<Rightarrow> svc
          | Inr accessToken \<Rightarrow> svc\<lparr>ms_client := Some (Client accessToken)\<rparr>))"

definition Microsoft365Service_ready ::
  "MsConfig option \<Rightarrow> error + string option \<Rightarrow> Microsoft365Service" where
  "Microsoft365Service_ready cfg token =
     (if startsInitialization cfg then initializeClient (Microsoft365Service_new cfg) token
      else Microsoft365Service_new cfg)"

definition ms_config_enabled :: "MsConfig option \<Rightarrow> bool" where
  "ms_config_enabled cfg = (case cfg of None \<Rightarrow> False | Some c \<Rightarrow> ms_enabled c)"

definition ms_isEnabled :: "Microsoft365Service \<Rightarrow> bool" where
  "ms_isEnabled svc = (ms_config_enabled (ms_config svc) \<and> ms_client svc \<noteq> None)"

definition eventBody :: "SyncContext \<Rightarrow> string" where
  "eventBody context =
     nl @ ''            <p>Content Item ID: '' @ contentItemId context @ ''</p>''
     @ nl @ ''            <p>Language ID: '' @ languageId context @ ''</p>''
     @ nl @ ''            ''
     @ (if truthy (workflowStep context)
        then ''<p>Workflow Step: '' @ the (workflowStep context) @ ''</p>'' else [])
     @ nl @ ''            ''
     @ (case contributors context of
          Some cs \<Rightarrow> ''<p>Contributors: '' @ join '', '' cs @ ''</p>''
        | None \<Rightarrow> [])
     @ nl @ ''          ''"

definition eventSubject :: "SyncContext \<Rightarrow> string" where
  "eventSubject context =
     or_default (title context) (''Kontent.ai Content Item: '' @ contentItemId context)"

text \<open>
  Both methods build the event inside their \<^verbatim>\<open>try\<close>: when \<^verbatim>\<open>toISOString\<close> throws on
  an Invalid Date they return without sending anything.
\<close>

definition createCalendarEvent ::
  "Microsoft365Service \<Rightarrow> World \<Rightarrow> string \<Rightarrow> SyncContext \<Rightarrow> Date \<Rightarrow> Date
     \<Rightarrow> request list \<Rightarrow> string option \<times> request list" where
  "createCalendarEvent svc w userId context startTime endTime sent =
     (if ms_client svc = None \<or> \<not> ms_config_enabled (ms_config svc) then (None, sent)
      else
        (case toISOString startTime of
           Inl e \<Rightarrow> (None, sent)
         | Inr startIso \<Rightarrow>
            (case toISOString endTime of
               Inl e \<Rightarrow> (None, sent)
             | Inr endIso \<Rightarrow>
                let event = \<lparr>subject = eventSubject context,
                              body_contentType = ''HTML'',
                              body_content = eventBody context,
                              start_dateTime = startIso,
                              start_timeZone = ''UTC'',
                              end_dateTime = endIso,
                              end_timeZone = ''UTC'',
                              isReminderOn = Some True,
                              reminderMinutesBeforeStart = Some 15\<rparr>;
                    req = GraphPost (''/users/'' @ userId @ ''/calendar/events'') event
                in (case graph w sent req of
                      Inl e \<Rightarrow> (None, sent @ [req])
                    | Inr createdEvent_id \<Rightarrow> (createdEvent_id, sent @ [req])))))"

definition updateCalendarEvent ::
  "Microsoft365Service \<Rightarrow> World \<Rightarrow> string \<Rightarrow> string \<Rightarrow> SyncContext \<Rightarrow> Date \<Rightarrow> Date
     \<Rightarrow> request list \<Rightarrow> bool \<times> request list" where
  "updateCalendarEvent svc w userId eventId context startTime endTime sent =
     (if ms_client svc = None \<or> \<not> ms_config_enabled (ms_config svc) then (False, sent)
      else
        (case toISOString startTime of
           Inl e \<Rightarrow> (False, sent)
         | Inr startIso \<Rightarrow>
            (case toISOString endTime of
               Inl e \<Rightarrow> (False, sent)
             | Inr endIso \<Rightarrow>
                let event = \<lparr>subject = eventSubject context,
                              body_contentType = ''HTML'',
                              body_content = eventBody context,
                              start_dateTime = startIso,
                              start_timeZone = ''UTC'',
                              end_dateTime = endIso,
                              end_timeZone = ''UTC'',
                              isReminderOn = None,
                              reminderMinutesBeforeStart = None\<rparr>;
                    req = GraphPatch (''/users/'' @ userId @ ''/calendar/events/'' @ eventId)
                            event
                in (case graph w sent req of
                      Inl e \<Rightarrow> (False, sent @ [req])
                    | Inr r \<Rightarrow> (True, sent @ [req])))))"

section \<open>AsanaService (services/asana.service.ts)\<close>

record AsanaService =
  as_config :: "AsanaConfig option"
  projectId :: "string option"

definition apiBaseUrl :: string where
  "apiBaseUrl = ''https://app.asana.com/api/1.0''"

definition AsanaService_new :: "AsanaConfig option \<Rightarrow> AsanaService" where
  "AsanaService_new cfg =
     \<lparr>as_config = cfg,
      projectId = (case cfg of
                     None \<Rightarrow> None
                   | Some c \<Rightarrow> if truthy (as_projectId c) then as_projectId c else None)\<rparr>"

definition accessToken :: "AsanaService \<Rightarrow> string" where
  "accessToken svc = (case as_config svc of None \<Rightarrow> [] | Some c \<Rightarrow> as_accessToken c)"

definition workspaceId :: "AsanaService \<Rightarrow> string option" where
  "workspaceId svc = (case as_config svc of None \<Rightarrow> None | Some c \<Rightarrow> as_workspaceId c)"

definition as_config_enabled :: "AsanaConfig option \<Rightarrow> bool" where
  "as_config_enabled cfg = (case cfg of None \<Rightarrow> False | Some c \<Rightarrow> as_enabled c)"

definition as_isEnabled :: "AsanaService \<Rightarrow> bool" where
  "as_isEnabled svc = (as_config_enabled (as_config svc) \<and> accessToken svc \<noteq> [])"

text \<open>
  \<open>makeRequest\<close> throws before sending anything when no access token is configured;
  otherwise it sends the request and returns the reply or throws.
\<close>

definition makeRequest ::
  "AsanaService \<Rightarrow> World \<Rightarrow> string \<Rightarrow> string \<Rightarrow> TaskData option
     \<Rightarrow> request list \<Rightarrow> (error + AsanaData) \<times> request list" where
  "makeRequest svc w endpoint method body sent =
     (if accessToken svc = [] then (Inl (Error ''Asana access token is not configured''), sent)
      else
        let req = AsanaFetch method (apiBaseUrl @ endpoint) (accessToken svc) body
        in (asana_api w sent req, sent @ [req]))"

definition findUserByEmail ::
  "AsanaService \<Rightarrow> World \<Rightarrow> string \<Rightarrow> string option
     \<Rightarrow> request list \<Rightarrow> string option \<times> request list" where
  "findUserByEmail svc w email wsId sent =
     (if \<not> truthy wsId \<and> \<not> truthy (projectId svc) then (None, sent)
      else
        let (actualWorkspaceId, sent1) =
              (if \<not> truthy wsId \<and> truthy (projectId svc)
               then (case makeRequest svc w (''/projects/'' @ the (projectId svc)) ''GET'' None sent of
                       (Inl e, s) \<Rightarrow> (Inl e, s)
                     | (Inr project, s) \<Rightarrow> (Inr (d_workspace_gid project), s))
               else (Inr wsId, sent))
        in (case actualWorkspaceId of
              Inl e \<Rightarrow> (None, sent1)
            | Inr ws \<Rightarrow>
               if \<not> truthy ws then (None, sent1)
               else
                 (case makeRequest svc w (''/workspaces/'' @ the ws @ ''/users'') ''GET'' None sent1 of
                    (Inl e, s) \<Rightarrow> (None, s)
                  | (Inr users, s) \<Rightarrow>
                     (let user = (case d_users users of
                                    Some us \<Rightarrow> find (\<lambda>u. fst u = Some email) us
                                  | None \<Rightarrow> None)
                      in ((case user of
                             None \<Rightarrow> None
                           | Some u \<Rightarrow> if truthy (snd u) then snd u else None), s)))))"

definition taskNotes :: "SyncContext \<Rightarrow> string" where
  "taskNotes context =
     trim (nl @ ''Content Item ID: '' @ contentItemId context
       @ nl @ ''Language ID: '' @ languageId context
       @ nl @ (if truthy (workflowStep context)
               then ''Workflow Step: '' @ the (workflowStep context) @ nl else [])
       @ nl @ (case contributors context of
                 Some cs \<Rightarrow> ''Contributors: '' @ join '', '' cs @ nl
               | None \<Rightarrow> [])
       @ nl @ ''          '')"

text \<open>
  The \<^verbatim>\<open>due_on\<close> member: absent without a due date, else the date part of its ISO text;
  an Invalid Date throws, inside the \<^verbatim>\<open>try\<close> of \<^verbatim>\<open>createTask\<close> and \<^verbatim>\<open>updateTask\<close> and
  before either sends a request.
\<close>

definition due_on :: "SyncContext \<Rightarrow> error + string option" where
  "due_on context =
     (case dueDate context of
        None \<Rightarrow> Inr None
      | Some d \<Rightarrow> (case toISOString d of
                     Inl e \<Rightarrow> Inl e
                   | Inr isoText \<Rightarrow> Inr (Some (beforeT isoText))))"

definition createTask ::
  "AsanaService \<Rightarrow> World \<Rightarrow> SyncContext \<Rightarrow> string option
     \<Rightarrow> request list \<Rightarrow> string option \<times> request list" where
  "createTask svc w context assigneeEmail sent =
     (if \<not> as_config_enabled (as_config svc) \<or> accessToken svc = [] then (None, sent)
      else
        (case due_on context of
           Inl e \<Rightarrow> (None, sent)
         | Inr due \<Rightarrow>
            let taskData = \<lparr>td_name = eventSubject context,
                             td_notes = taskNotes context,
                             td_due_on = due,
                             td_projects = (if truthy (projectId svc)
                                            then Some [the (projectId svc)] else None),
                             td_workspace = (if \<not> truthy (projectId svc)
                                               \<and> truthy (workspaceId svc)
                                             then workspaceId svc else None),
                             td_assignee = None\<rparr>;
                (assigneeGid, sent1) =
                  (if truthy assigneeEmail
                   then findUserByEmail svc w (the assigneeEmail) (workspaceId svc) sent
                   else (None, sent));
                taskData1 = (if truthy assigneeGid then taskData\<lparr>td_assignee := assigneeGid\<rparr>
                             else taskData)
            in (case makeRequest svc w ''/tasks'' ''POST'' (Some taskData1) sent1 of
                  (Inl e, s) \<Rightarrow> (None, s)
                | (Inr task, s) \<Rightarrow> (d_gid task, s))))"

definition updateTask ::
  "AsanaService \<Rightarrow> World \<Rightarrow> string \<Rightarrow> SyncContext \<Rightarrow> string option
     \<Rightarrow> request list \<Rightarrow> bool \<times> request list" where
  "updateTask svc w taskId context assigneeEmail sent =
     (if \<not> as_config_enabled (as_config svc) \<or> accessToken svc = [] then (False, sent)
      else
        (case due_on context of
           Inl e \<Rightarrow> (False, sent)
         | Inr due \<Rightarrow>
            let updateData = \<lparr>td_name = eventSubject context,
                               td_notes = taskNotes context,
                               td_due_on = due,
                               td_projects = None,
                               td_workspace = None,
                               td_assignee = None\<rparr>;
                (assigneeGid, sent1) =
                  (if truthy assigneeEmail
                   then findUserByEmail svc w (the assigneeEmail) (workspaceId svc) sent
                   else (None, sent));
                updateData1 = (if truthy assigneeGid
                               then updateData\<lparr>td_assignee := assigneeGid\<rparr>
                               else updateData)
            in (case makeRequest svc w (''/tasks/'' @ taskId) ''PUT'' (Some updateData1) sent1 of
                  (Inl e, s) \<Rightarrow> (False, s)
                | (Inr r, s) \<Rightarrow> (True, s))))"

section \<open>SyncService (services/sync.service.ts)\<close>

text \<open>
  The values of \<^verbatim>\<open>syncMap\<close> are JavaScript objects: the map holds references, and
  \<^verbatim>\<open>syncContext\<close> keeps the reference it read at its start while
  \<^verbatim>\<open>syncToMicrosoft365\<close> and \<^verbatim>\<open>syncToAsana\<close> mutate the object the map holds. The
  model therefore has an explicit store: \<open>syncMap\<close> maps a key to an address and
  \<open>heap\<close> maps an address to the record stored there; \<open>nextAddr\<close> is the next
  unused address, where an object literal is allocated.
\<close>

record SyncRecord =
  ms365EventId :: "string option"
  asanaTaskId :: "string option"

type_synonym addr = nat

text \<open>The calls the service makes on its two adapters, and what each returned.\<close>

datatype call =
    CreateCalendarEvent string SyncContext Date Date
  | UpdateCalendarEvent string string SyncContext Date Date
  | CreateTask SyncContext "string option"
  | UpdateTask string SyncContext "string option"

datatype outcome = RemoteId "string option" | Success bool

record SyncService =
  config :: AppConfig
  ms365Service :: Microsoft365Service
  asanaService :: AsanaService

definition SyncService_new :: "AppConfig \<Rightarrow> SyncService" where
  "SyncService_new cfg =
     \<lparr>config = cfg,
      ms365Service = Microsoft365Service_new (microsoft365 cfg),
      asanaService = AsanaService_new (asana cfg)\<rparr>"

text \<open>
  The mutable part of a running service: the private \<^verbatim>\<open>syncMap\<close> with its store,
  the log of adapter calls and the log of requests sent.
\<close>

record State =
  syncMap :: "string \<rightharpoonup> addr"
  heap :: "addr \<Rightarrow> SyncRecord"
  nextAddr :: addr
  calls :: "(call \<times> outcome) list"
  sent :: "request list"

definition emptyRecord :: SyncRecord where
  "emptyRecord = \<lparr>ms365EventId = None, asanaTaskId = None\<rparr>"

definition initial :: State where
  "initial = \<lparr>syncMap = Map.empty, heap = (\<lambda>a. emptyRecord), nextAddr = 0,
              calls = [], sent = []\<rparr>"

definition syncKey :: "SyncContext \<Rightarrow> string" where
  "syncKey context = contentItemId context @ ''-'' @ languageId context"

text \<open>\<^verbatim>\<open>this.syncMap.get(syncKey) || {}\<close>: the object bound to the key, or a new empty one.\<close>

definition getOrNew :: "string \<Rightarrow> State \<Rightarrow> addr \<times> State" where
  "getOrNew key st =
     (case syncMap st key of
        Some a \<Rightarrow> (a, st)
      | None \<Rightarrow> (nextAddr st,
                 st\<lparr>heap := (heap st)(nextAddr st := emptyRecord),
                    nextAddr := Suc (nextAddr st)\<rparr>))"

text \<open>\<^verbatim>\<open>existingSync?.ms365EventId\<close> and \<^verbatim>\<open>existingSync?.asanaTaskId\<close>.\<close>

definition read_ms365EventId :: "addr option \<Rightarrow> State \<Rightarrow> string option" where
  "read_ms365EventId existingSync st =
     (case existingSync of None \<Rightarrow> None | Some a \<Rightarrow> ms365EventId (heap st a))"

definition read_asanaTaskId :: "addr option \<Rightarrow> State \<Rightarrow> string option" where
  "read_asanaTaskId existingSync st =
     (case existingSync of None \<Rightarrow> None | Some a \<Rightarrow> asanaTaskId (heap st a))"

text \<open>
  The body of the loop over the contributors in \<^verbatim>\<open>syncToMicrosoft365\<close>, for one
  contributor. The adapter methods catch every error themselves, so the \<^verbatim>\<open>catch\<close>
  around the body is never entered.
\<close>

definition syncToMicrosoft365_body ::
  "SyncService \<Rightarrow> World \<Rightarrow> SyncContext \<Rightarrow> string option \<Rightarrow> Date \<Rightarrow> Date
     \<Rightarrow> string \<Rightarrow> State \<Rightarrow> State" where
  "syncToMicrosoft365_body svc w context existingEventId startTime endTime contributorEmail st =
     (let userPrincipalName = contributorEmail
      in if truthy existingEventId then
           (let (ok, s) = updateCalendarEvent (ms365Service svc) w userPrincipalName
                            (the existingEventId) context startTime endTime (sent st)
            in st\<lparr>calls := calls st @
                     [(UpdateCalendarEvent userPrincipalName (the existingEventId)
                         context startTime endTime, Success ok)],
                  sent := s\<rparr>)
         else
           (let (eventId, s) = createCalendarEvent (ms365Service svc) w userPrincipalName
                                 context startTime endTime (sent st);
                st' = st\<lparr>calls := calls st @
                           [(CreateCalendarEvent userPrincipalName context startTime endTime,
                             RemoteId eventId)],
                        sent := s\<rparr>
            in if truthy eventId then
                 (let (existing, st'') = getOrNew (syncKey context) st'
                  in st''\<lparr>heap := (heap st'')
                              (existing := (heap st'' existing)\<lparr>ms365EventId := eventId\<rparr>),
                          syncMap := (syncMap st'')(syncKey context \<mapsto> existing)\<rparr>)
               else st'))"

fun syncToMicrosoft365_loop ::
  "SyncService \<Rightarrow> World \<Rightarrow> SyncContext \<Rightarrow> string option \<Rightarrow> Date \<Rightarrow> Date
     \<Rightarrow> string list \<Rightarrow> State \<Rightarrow> State" where
  "syncToMicrosoft365_loop svc w context existingEventId startTime endTime [] st = st"
| "syncToMicrosoft365_loop svc w context existingEventId startTime endTime
     (contributorEmail # rest) st =
     syncToMicrosoft365_loop svc w context existingEventId startTime endTime rest
       (syncToMicrosoft365_body svc w context existingEventId startTime endTime
          contributorEmail st)"

text \<open>\<open>now\<close> is the value \<^verbatim>\<open>Date.now()\<close> returns, a whole number of milliseconds.\<close>

definition syncToMicrosoft365 ::
  "SyncService \<Rightarrow> World \<Rightarrow> int \<Rightarrow> SyncContext \<Rightarrow> string option \<Rightarrow> State \<Rightarrow> State" where
  "syncToMicrosoft365 svc w now context existingEventId st =
     (if \<not> ms_config_enabled (microsoft365 (config svc)) then st
      else
        let startTime = (case dueDate context of
                           Some d \<Rightarrow> new_Date (map_option (\<lambda>t. t - 30 * 60 * 1000) (getTime d))
                         | None \<Rightarrow> new_Date (Some (now + 24 * 60 * 60 * 1000)));
            endTime = (case dueDate context of
                         Some d \<Rightarrow> new_Date (map_option (\<lambda>t. t + 30 * 60 * 1000) (getTime d))
                       | None \<Rightarrow>
                           new_Date (map_option (\<lambda>t. t + 60 * 60 * 1000) (getTime startTime)));
            cs = (case contributors context of Some xs \<Rightarrow> xs | None \<Rightarrow> [])
        in if length cs = 0 then st
           else syncToMicrosoft365_loop svc w context existingEventId startTime endTime cs st)"

definition syncToAsana ::
  "SyncService \<Rightarrow> World \<Rightarrow> SyncContext \<Rightarrow> string option \<Rightarrow> State \<Rightarrow> State" where
  "syncToAsana svc w context existingTaskId st =
     (if \<not> as_config_enabled (asana (config svc)) then st
      else
        let assigneeEmail = (case contributors context of
                               Some (c # cs) \<Rightarrow> Some c
                             | _ \<Rightarrow> None)
        in if truthy existingTaskId then
             (let (ok, s) = updateTask (asanaService svc) w (the existingTaskId) context
                              assigneeEmail (sent st)
              in st\<lparr>calls := calls st @
                       [(UpdateTask (the existingTaskId) context assigneeEmail, Success ok)],
                    sent := s\<rparr>)
           else
             (let (taskId, s) = createTask (asanaService svc) w context assigneeEmail (sent st);
                  st' = st\<lparr>calls := calls st @
                             [(CreateTask context assigneeEmail, RemoteId taskId)],
                          sent := s\<rparr>
              in if truthy taskId then
                   (let (existing, st'') = getOrNew (syncKey context) st'
                    in st''\<lparr>heap := (heap st'')
                                (existing := (heap st'' existing)\<lparr>asanaTaskId := taskId\<rparr>),
                            syncMap := (syncMap st'')(syncKey context \<mapsto> existing)\<rparr>)
                 else st'))"

definition defaultSyncSettings :: SyncSettings where
  "defaultSyncSettings = \<lparr>syncContributors = True, syncWorkflowSteps = True,
                          createCalendarEvents = True, createTasks = True\<rparr>"

definition settings :: "SyncService \<Rightarrow> SyncSettings" where
  "settings svc = (case syncSettings (config svc) of
                     Some s \<Rightarrow> s
                   | None \<Rightarrow> defaultSyncSettings)"

definition syncContext :: "SyncService \<Rightarrow> World \<Rightarrow> int \<Rightarrow> SyncContext \<Rightarrow> State \<Rightarrow> State" where
  "syncContext svc w now context st =
     (let key = syncKey context;
          existingSync = syncMap st key;
          st1 = (if createCalendarEvents (settings svc) \<and> ms_isEnabled (ms365Service svc)
                 then syncToMicrosoft365 svc w now context
                        (read_ms365EventId existingSync st) st
                 else st);
          st2 = (if createTasks (settings svc) \<and> as_isEnabled (asanaService svc)
                 then syncToAsana svc w context (read_asanaTaskId existingSync st1) st1
                 else st1);
          updatedSync = \<lparr>ms365EventId = read_ms365EventId existingSync st2,
                         asanaTaskId = read_asanaTaskId existingSync st2\<rparr>
      in st2\<lparr>heap := (heap st2)(nextAddr st2 := updatedSync),
             nextAddr := Suc (nextAddr st2),
             syncMap := (syncMap st2)(key \<mapsto> nextAddr st2)\<rparr>)"

definition getSyncStatus :: "string \<Rightarrow> string \<Rightarrow> State \<Rightarrow> SyncRecord option" where
  "getSyncStatus cid lid st =
     (case syncMap st (cid @ ''-'' @ lid) of
        Some a \<Rightarrow> Some (heap st a)
      | None \<Rightarrow> None)"

section \<open>Notions used to state the properties\<close>

text \<open>
  The remote id the Identity Map holds for a key and an adapter: the field of the
  record bound to the key, or nothing when the key has no entry.
\<close>

definition stored_ms365EventId :: "string \<Rightarrow> State \<Rightarrow> string option" where
  "stored_ms365EventId key st = read_ms365EventId (syncMap st key) st"

definition stored_asanaTaskId :: "string \<Rightarrow> State \<Rightarrow> string option" where
  "stored_asanaTaskId key st = read_asanaTaskId (syncMap st key) st"

text \<open>The adapter calls and the requests made between an earlier and a later state.\<close>

definition new_calls :: "State \<Rightarrow> State \<Rightarrow> (call \<times> outcome) list" where
  "new_calls st st' = drop (length (calls st)) (calls st')"

definition new_requests :: "State \<Rightarrow> State \<Rightarrow> request list" where
  "new_requests st st' = drop (length (sent st)) (sent st')"

fun is_calendar_create :: "call \<Rightarrow> bool" where
  "is_calendar_create (CreateCalendarEvent u c s e) = True"
| "is_calendar_create _ = False"

fun is_calendar_update :: "call \<Rightarrow> bool" where
  "is_calendar_update (UpdateCalendarEvent u i c s e) = True"
| "is_calendar_update _ = False"

fun is_task_create :: "call \<Rightarrow> bool" where
  "is_task_create (CreateTask c a) = True"
| "is_task_create _ = False"

fun is_task_update :: "call \<Rightarrow> bool" where
  "is_task_update (UpdateTask i c a) = True"
| "is_task_update _ = False"

definition is_calendar_call :: "call \<Rightarrow> bool" where
  "is_calendar_call c = (is_calendar_create c \<or> is_calendar_update c)"

definition is_task_call :: "call \<Rightarrow> bool" where
  "is_task_call c = (is_task_create c \<or> is_task_update c)"

text \<open>How many of the logged calls satisfy a test.\<close>

definition count_calls :: "(call \<Rightarrow> bool) \<Rightarrow> (call \<times> outcome) list \<Rightarrow> nat" where
  "count_calls P l = length (filter P (map fst l))"

text \<open>A create call that returned no usable id.\<close>

fun returned_id :: "outcome \<Rightarrow> bool" where
  "returned_id (RemoteId r) = truthy r"
| "returned_id (Success b) = False"

text \<open>The time window of a calendar call.\<close>

fun window :: "call \<Rightarrow> (Date \<times> Date) option" where
  "window (CreateCalendarEvent u c s e) = Some (s, e)"
| "window (UpdateCalendarEvent u i c s e) = Some (s, e)"
| "window _ = None"

text \<open>The remote id an update call is made on.\<close>

fun updated_id :: "call \<Rightarrow> string option" where
  "updated_id (UpdateCalendarEvent u i c s e) = Some i"
| "updated_id (UpdateTask i c a) = Some i"
| "updated_id _ = None"

text \<open>A request that creates a remote record: a Graph post, or a \<open>POST\<close> to Asana.\<close>

fun is_create_request :: "request \<Rightarrow> bool" where
  "is_create_request (GraphPost p e) = True"
| "is_create_request (GraphPatch p e) = False"
| "is_create_request (AsanaFetch m u t b) = (m = ''POST'')"

fun is_graph_request :: "request \<Rightarrow> bool" where
  "is_graph_request (AsanaFetch m u t b) = False"
| "is_graph_request _ = True"

text \<open>
  The two gates of \<^verbatim>\<open>syncContext\<close>: the toggle of \<^verbatim>\<open>syncSettings\<close> and the adapter's
  \<^verbatim>\<open>isEnabled()\<close>.
\<close>

definition calendar_enabled :: "SyncService \<Rightarrow> bool" where
  "calendar_enabled svc =
     (createCalendarEvents (settings svc) \<and> ms_isEnabled (ms365Service svc))"

definition task_enabled :: "SyncService \<Rightarrow> bool" where
  "task_enabled svc = (createTasks (settings svc) \<and> as_isEnabled (asanaService svc))"

text \<open>
  The constructor hands each adapter the part of the configuration that
  \<^verbatim>\<open>syncToMicrosoft365\<close> and \<^verbatim>\<open>syncToAsana\<close> test again.
\<close>

definition wired :: "SyncService \<Rightarrow> bool" where
  "wired svc =
     (ms_config (ms365Service svc) = microsoft365 (config svc)
      \<and> as_config (asanaService svc) = asana (config svc))"

text \<open>Every address the map holds has been allocated.\<close>

definition wf_state :: "State \<Rightarrow> bool" where
  "wf_state st = (\<forall>k a. syncMap st k = Some a \<longrightarrow> a < nextAddr st)"

text \<open>The list of contributors as \<^verbatim>\<open>syncToMicrosoft365\<close> reads it, and the first of them.\<close>

definition contributorList :: "SyncContext \<Rightarrow> string list" where
  "contributorList context = (case contributors context of Some xs \<Rightarrow> xs | None \<Rightarrow> [])"

definition firstContributor :: "SyncContext \<Rightarrow> string option" where
  "firstContributor context = (case contributorList context of [] \<Rightarrow> None | c # cs \<Rightarrow> Some c)"

text \<open>Reconciling the same context once for each reading of the clock in a list.\<close>

definition syncContext_seq ::
  "SyncService \<Rightarrow> World \<Rightarrow> SyncContext \<Rightarrow> int list \<Rightarrow> State \<Rightarrow> State" where
  "syncContext_seq svc w context nows st = fold (\<lambda>now. syncContext svc w now context) nows st"

text \<open>Two states with the same Identity Map: the same bindings, store and next address.\<close>

definition same_store :: "State \<Rightarrow> State \<Rightarrow> bool" where
  "same_store st st' =
     (syncMap st' = syncMap st \<and> heap st' = heap st \<and> nextAddr st' = nextAddr st)"

text \<open>
  The calls one expects from the two private methods, given the remote id each was
  handed: an update on that id when it is truthy, a create otherwise; for the calendar
  one call for each contributor, for the task tracker a single call.
\<close>

definition calendar_call :: "SyncContext \<Rightarrow> string option \<Rightarrow> Date \<Rightarrow> Date \<Rightarrow> string \<Rightarrow> call" where
  "calendar_call context ex s e c =
     (if truthy ex then UpdateCalendarEvent c (the ex) context s e
      else CreateCalendarEvent c context s e)"

definition task_call :: "SyncContext \<Rightarrow> string option \<Rightarrow> call" where
  "task_call context ex =
     (if truthy ex then UpdateTask (the ex) context (firstContributor context)
      else CreateTask context (firstContributor context))"

text \<open>The start and end time \<^verbatim>\<open>syncToMicrosoft365\<close> computes.\<close>

definition eventWindow :: "SyncContext \<Rightarrow> int \<Rightarrow> Date \<times> Date" where
  "eventWindow context now =
     (case dueDate context of
        Some d \<Rightarrow> (new_Date (map_option (\<lambda>t. t - 30 * 60 * 1000) (getTime d)),
                   new_Date (map_option (\<lambda>t. t + 30 * 60 * 1000) (getTime d)))
      | None \<Rightarrow> (new_Date (Some (now + 24 * 60 * 60 * 1000)),
                 new_Date (map_option (\<lambda>t. t + 60 * 60 * 1000)
                   (getTime (new_Date (Some (now + 24 * 60 * 60 * 1000)))))))"

definition calendar_calls :: "SyncService \<Rightarrow> SyncContext \<Rightarrow> int \<Rightarrow> string option \<Rightarrow> call list" where
  "calendar_calls svc context now ex =
     (if ms_config_enabled (microsoft365 (config svc))
      then map (calendar_call context ex (fst (eventWindow context now))
                  (snd (eventWindow context now))) (contributorList context)
      else [])"

definition task_calls :: "SyncService \<Rightarrow> SyncContext \<Rightarrow> string option \<Rightarrow> call list" where
  "task_calls svc context ex =
     (if as_config_enabled (asana (config svc)) then [task_call context ex] else [])"

text \<open>
  The state of \<^verbatim>\<open>syncContext\<close> after its calendar step and after its task step, before
  the final write to the map.
\<close>

definition after_calendar :: "SyncService \<Rightarrow> World \<Rightarrow> int \<Rightarrow> SyncContext \<Rightarrow> State \<Rightarrow> State" where
  "after_calendar svc w now ctx st =
     (if calendar_enabled svc
      then syncToMicrosoft365 svc w now ctx (stored_ms365EventId (syncKey ctx) st) st
      else st)"

definition after_tasks :: "SyncService \<Rightarrow> World \<Rightarrow> int \<Rightarrow> SyncContext \<Rightarrow> State \<Rightarrow> State" where
  "after_tasks svc w now ctx st =
     (if task_enabled svc
      then syncToAsana svc w ctx (stored_asanaTaskId (syncKey ctx) st)
             (after_calendar svc w now ctx st)
      else after_calendar svc w now ctx st)"

text \<open>The event a Graph request carries.\<close>

fun event_of :: "request \<Rightarrow> Event option" where
  "event_of (GraphPost p e) = Some e"
| "event_of (GraphPatch p e) = Some e"
| "event_of (AsanaFetch m u t b) = None"

text \<open>The remote system accepted a request sent after the requests \<open>h\<close>: it did not throw.\<close>

definition answered :: "World \<Rightarrow> request list \<Rightarrow> request \<Rightarrow> bool" where
  "answered w h r = (if is_graph_request r then \<not> isl (graph w h r) else \<not> isl (asana_api w h r))"

text \<open>A Graph request whose event runs from the valid date \<open>s\<close> to the valid date \<open>e\<close>, in UTC.\<close>

definition window_event :: "Date \<Rightarrow> Date \<Rightarrow> request \<Rightarrow> bool" where
  "window_event s e r =
     (case event_of r of
        Some ev \<Rightarrow> toISOString s = Inr (start_dateTime ev) \<and> start_timeZone ev = ''UTC''
                 \<and> toISOString e = Inr (end_dateTime ev) \<and> end_timeZone ev = ''UTC''
      | None \<Rightarrow> False)"

section \<open>A concrete service, for the examples\<close>

definition demo_config :: AppConfig where
  "demo_config =
     \<lparr>microsoft365 = Some \<lparr>ms_clientId = ''client'', ms_tenantId = ''tenant'',
                            ms_clientSecret = ''secret'', ms_enabled = True\<rparr>,
      asana = Some \<lparr>as_accessToken = ''token'', as_workspaceId = Some ''ws'',
                     as_projectId = None, as_enabled = True\<rparr>,
      syncSettings = None\<rparr>"

text \<open>The service built from \<open>demo_config\<close>, once its Graph client is initialised.\<close>

definition demo_service :: SyncService where
  "demo_service =
     (SyncService_new demo_config)
       \<lparr>ms365Service := Microsoft365Service_ready (microsoft365 demo_config) (Inr (Some ''jwt''))\<rparr>"

text \<open>The same with the calendar toggle off, and with the Asana integration disabled.\<close>

definition calendar_off_service :: SyncService where
  "calendar_off_service =
     demo_service\<lparr>config := demo_config\<lparr>syncSettings :=
        Some \<lparr>syncContributors = True, syncWorkflowSteps = True,
              createCalendarEvents = False, createTasks = True\<rparr>\<rparr>\<rparr>"

definition asana_off_config :: AppConfig where
  "asana_off_config =
     demo_config\<lparr>asana := Some \<lparr>as_accessToken = ''token'', as_workspaceId = Some ''ws'',
                                  as_projectId = None, as_enabled = False\<rparr>\<rparr>"

definition asana_off_service :: SyncService where
  "asana_off_service =
     (SyncService_new asana_off_config)
       \<lparr>ms365Service :=
          Microsoft365Service_ready (microsoft365 asana_off_config) (Inr (Some ''jwt''))\<rparr>"

text \<open>
  Three worlds: one where every request succeeds, one where Graph rejects every
  request, one where both remote systems fail.
\<close>

definition asana_reply :: AsanaData where
  "asana_reply = \<lparr>d_gid = Some ''task-1'', d_workspace_gid = None, d_users = None\<rparr>"

definition world_ok :: World where
  "world_ok = \<lparr>graph = (\<lambda>h r. Inr (Some ''evt-1'')), asana_api = (\<lambda>h r. Inr asana_reply)\<rparr>"

definition world_calendar_down :: World where
  "world_calendar_down =
     \<lparr>graph = (\<lambda>h r. Inl (Error ''503'')), asana_api = (\<lambda>h r. Inr asana_reply)\<rparr>"

text \<open>A world where Graph creates the event of one user and rejects every other request.\<close>

definition world_mixed :: World where
  "world_mixed =
     \<lparr>graph = (\<lambda>h r. case r of
                  GraphPost p e \<Rightarrow>
                    if p = ''/users/ann@example.com/calendar/events''
                    then Inr (Some ''evt-ann'') else Inl (Error ''404'')
                | _ \<Rightarrow> Inl (Error ''404'')),
      asana_api = (\<lambda>h r. Inr asana_reply)\<rparr>"

definition world_down :: World where
  "world_down =
     \<lparr>graph = (\<lambda>h r. Inl (Error ''503'')), asana_api = (\<lambda>h r. Inl (Error ''503''))\<rparr>"

text \<open>
  Contexts for the item \<open>item-1\<close> in language \<open>en\<close>: with one contributor and the due
  date 2025-01-10T12:00:00Z, with two contributors, and with no enrichable field.
\<close>

definition ctx_one :: SyncContext where
  "ctx_one = \<lparr>contentItemId = ''item-1'', languageId = ''en'', workflowStep = None,
              contributors = Some [''ann@example.com''], dueDate = Some (Valid 1736510400000),
              title = None\<rparr>"

definition ctx_two :: SyncContext where
  "ctx_two = ctx_one\<lparr>contributors := Some [''ann@example.com'', ''bob@example.com'']\<rparr>"

text \<open>The same as \<open>ctx_one\<close> with the last date there is as due date.\<close>

definition ctx_far :: SyncContext where
  "ctx_far = ctx_one\<lparr>dueDate := Some (Valid 8640000000000000)\<rparr>"

definition ctx_bare :: SyncContext where
  "ctx_bare = \<lparr>contentItemId = ''item-1'', languageId = ''en'', workflowStep = None,
               contributors = None, dueDate = None, title = None\<rparr>"

text \<open>A state whose map already holds both remote ids of the item.\<close>

definition synced :: State where
  "synced = \<lparr>syncMap = [''item-1-en'' \<mapsto> 0],
             heap = (\<lambda>a. \<lparr>ms365EventId = Some ''evt-1'', asanaTaskId = Some ''task-1''\<rparr>),
             nextAddr = 1, calls = [], sent = []\<rparr>"

text \<open>A state whose map has an entry for the item that holds no remote id yet.\<close>

definition pending :: State where
  "pending = \<lparr>syncMap = [''item-1-en'' \<mapsto> 0], heap = (\<lambda>a. emptyRecord),
              nextAddr = 1, calls = [], sent = []\<rparr>"

section \<open>The two steps of a reconciliation\<close>

subsection \<open>The calendar step\<close>


lemma toISOString_Valid:
  "\<bar>t\<bar> \<le> maxTime \<Longrightarrow> toISOString (Valid t) = Inr (isoString t)"
  by (simp add: toISOString_def getTime_def)

lemma toISOString_Inr:
  "toISOString d = Inr x \<longleftrightarrow> (\<exists>t. d = Valid t \<and> \<bar>t\<bar> \<le> maxTime \<and> x = isoString t)"
  by (auto simp: toISOString_def getTime_def split: Date.splits)

lemma toISOString_new_Date:
  "toISOString (new_Date v) = (case v of
      Some t \<Rightarrow> if \<bar>t\<bar> \<le> maxTime then Inr (isoString t) else Inl RangeError
    | None \<Rightarrow> Inl RangeError)"
  by (simp add: toISOString_def getTime_def new_Date_def split: option.splits)

lemma wf_stateD: "wf_state st \<Longrightarrow> syncMap st k = Some a \<Longrightarrow> a < nextAddr st"
  by (simp add: wf_state_def)

lemma new_calls_append: "calls st' = calls st @ l \<Longrightarrow> new_calls st st' = l"
  by (simp add: new_calls_def)

lemma body_calls:
  "\<exists>r. calls (syncToMicrosoft365_body svc w ctx ex s e c st) =
     calls st @ [(calendar_call ctx ex s e c, r)]
     \<and> (\<not> returned_id r \<longrightarrow> same_store st (syncToMicrosoft365_body svc w ctx ex s e c st))"
  unfolding syncToMicrosoft365_body_def getOrNew_def Let_def calendar_call_def same_store_def
  by (auto split: prod.splits option.splits)

lemma body_update_store:
  "truthy ex \<Longrightarrow> same_store st (syncToMicrosoft365_body svc w ctx ex s e c st)"
  unfolding syncToMicrosoft365_body_def getOrNew_def Let_def same_store_def
  by (auto split: prod.splits option.splits)

lemma body_nextAddr: "nextAddr st \<le> nextAddr (syncToMicrosoft365_body svc w ctx ex s e c st)"
  unfolding syncToMicrosoft365_body_def getOrNew_def Let_def
  by (auto split: prod.splits option.splits)

lemma body_bound:
  "syncMap st (syncKey ctx) = Some a \<Longrightarrow>
     syncMap (syncToMicrosoft365_body svc w ctx ex s e c st) (syncKey ctx) = Some a
   \<and> nextAddr (syncToMicrosoft365_body svc w ctx ex s e c st) = nextAddr st
   \<and> (\<forall>b. asanaTaskId (heap (syncToMicrosoft365_body svc w ctx ex s e c st) b) = asanaTaskId (heap st b))"
  unfolding syncToMicrosoft365_body_def getOrNew_def Let_def
  by (auto split: prod.splits option.splits)

lemma body_wf:
  "wf_state st \<Longrightarrow> wf_state (syncToMicrosoft365_body svc w ctx ex s e c st)"
  unfolding syncToMicrosoft365_body_def getOrNew_def Let_def wf_state_def
  by (auto split: prod.splits option.splits simp: less_Suc_eq)

lemma body_stored_asana:
  "wf_state st \<Longrightarrow> stored_asanaTaskId k (syncToMicrosoft365_body svc w ctx ex s e c st) = stored_asanaTaskId k st"
  unfolding syncToMicrosoft365_body_def getOrNew_def Let_def stored_asanaTaskId_def read_asanaTaskId_def emptyRecord_def
  by (auto split: prod.splits option.splits dest: wf_stateD)

lemma body_sent:
  "\<exists>l. sent (syncToMicrosoft365_body svc w ctx ex s e c st) = sent st @ l
     \<and> (\<forall>r\<in>set l. is_graph_request r) \<and> (truthy ex \<longrightarrow> (\<forall>r\<in>set l. \<not> is_create_request r))"
  unfolding syncToMicrosoft365_body_def getOrNew_def Let_def createCalendarEvent_def updateCalendarEvent_def
  by (auto split: prod.splits option.splits sum.splits if_splits)

lemma same_store_refl: "same_store st st"
  by (simp add: same_store_def)

lemma same_store_trans: "same_store a b \<Longrightarrow> same_store b c \<Longrightarrow> same_store a c"
  by (simp add: same_store_def)

lemma loop_calls:
  "\<exists>l. calls (syncToMicrosoft365_loop svc w ctx ex s e cs st) = calls st @ l
     \<and> map fst l = map (calendar_call ctx ex s e) cs
     \<and> ((\<forall>r\<in>set l. \<not> returned_id (snd r)) \<longrightarrow>
            same_store st (syncToMicrosoft365_loop svc w ctx ex s e cs st))"
proof (induction cs arbitrary: st)
  case Nil
  show ?case by (simp add: same_store_refl)
next
  case (Cons c cs)
  let ?st1 = "syncToMicrosoft365_body svc w ctx ex s e c st"
  obtain r where r: "calls ?st1 = calls st @ [(calendar_call ctx ex s e c, r)]"
    and rs: "\<not> returned_id r \<longrightarrow> same_store st ?st1"
    using body_calls by blast
  obtain l where l: "calls (syncToMicrosoft365_loop svc w ctx ex s e cs ?st1) = calls ?st1 @ l"
    and lm: "map fst l = map (calendar_call ctx ex s e) cs"
    and ls: "(\<forall>r\<in>set l. \<not> returned_id (snd r)) \<longrightarrow>
            same_store ?st1 (syncToMicrosoft365_loop svc w ctx ex s e cs ?st1)"
    using Cons.IH by blast
  show ?case
  proof (intro exI [of _ "(calendar_call ctx ex s e c, r) # l"] conjI impI)
    show "calls (syncToMicrosoft365_loop svc w ctx ex s e (c # cs) st) =
            calls st @ (calendar_call ctx ex s e c, r) # l"
      using r l by simp
    show "map fst ((calendar_call ctx ex s e c, r) # l) = map (calendar_call ctx ex s e) (c # cs)"
      using lm by simp
    assume "\<forall>r\<in>set ((calendar_call ctx ex s e c, r) # l). \<not> returned_id (snd r)"
    then show "same_store st (syncToMicrosoft365_loop svc w ctx ex s e (c # cs) st)"
      using rs ls same_store_trans by auto
  qed
qed

lemma loop_update_store:
  "truthy ex \<Longrightarrow> same_store st (syncToMicrosoft365_loop svc w ctx ex s e cs st)"
  by (induction cs arbitrary: st) (auto intro: same_store_refl same_store_trans body_update_store)

lemma loop_nextAddr: "nextAddr st \<le> nextAddr (syncToMicrosoft365_loop svc w ctx ex s e cs st)"
  by (induction cs arbitrary: st) (auto intro: order_trans body_nextAddr)

lemma loop_bound:
  "syncMap st (syncKey ctx) = Some a \<Longrightarrow>
     syncMap (syncToMicrosoft365_loop svc w ctx ex s e cs st) (syncKey ctx) = Some a
   \<and> nextAddr (syncToMicrosoft365_loop svc w ctx ex s e cs st) = nextAddr st
   \<and> (\<forall>b. asanaTaskId (heap (syncToMicrosoft365_loop svc w ctx ex s e cs st) b) = asanaTaskId (heap st b))"
proof (induction cs arbitrary: st)
  case Nil
  then show ?case by simp
next
  case (Cons c cs)
  from body_bound [OF Cons.prems, of svc w ex s e c] Cons.IH
  show ?case by simp
qed

lemma loop_wf:
  "wf_state st \<Longrightarrow> wf_state (syncToMicrosoft365_loop svc w ctx ex s e cs st)"
  by (induction cs arbitrary: st) (auto intro: body_wf)

lemma loop_stored_asana:
  "wf_state st \<Longrightarrow> stored_asanaTaskId k (syncToMicrosoft365_loop svc w ctx ex s e cs st) = stored_asanaTaskId k st"
  by (induction cs arbitrary: st) (auto simp: body_wf body_stored_asana)

lemma loop_sent:
  "\<exists>l. sent (syncToMicrosoft365_loop svc w ctx ex s e cs st) = sent st @ l
     \<and> (\<forall>r\<in>set l. is_graph_request r) \<and> (truthy ex \<longrightarrow> (\<forall>r\<in>set l. \<not> is_create_request r))"
proof (induction cs arbitrary: st)
  case Nil
  show ?case by simp
next
  case (Cons c cs)
  let ?st1 = "syncToMicrosoft365_body svc w ctx ex s e c st"
  obtain l1 where l1: "sent ?st1 = sent st @ l1" "\<forall>r\<in>set l1. is_graph_request r"
     "truthy ex \<longrightarrow> (\<forall>r\<in>set l1. \<not> is_create_request r)"
    using body_sent by blast
  obtain l2 where l2: "sent (syncToMicrosoft365_loop svc w ctx ex s e cs ?st1) = sent ?st1 @ l2"
     "\<forall>r\<in>set l2. is_graph_request r"
     "truthy ex \<longrightarrow> (\<forall>r\<in>set l2. \<not> is_create_request r)"
    using Cons.IH by blast
  show ?case
    by (rule exI [of _ "l1 @ l2"]) (use l1 l2 in auto)
qed


lemma syncToMicrosoft365_eq:
  "syncToMicrosoft365 svc w now ctx ex st =
     (if \<not> ms_config_enabled (microsoft365 (config svc)) \<or> contributorList ctx = [] then st
      else syncToMicrosoft365_loop svc w ctx ex (fst (eventWindow ctx now))
             (snd (eventWindow ctx now)) (contributorList ctx) st)"
  by (simp add: syncToMicrosoft365_def contributorList_def eventWindow_def Let_def
        add.commute split: option.splits)

lemma ms_calls:
  "\<exists>l. calls (syncToMicrosoft365 svc w now ctx ex st) = calls st @ l
     \<and> map fst l = calendar_calls svc ctx now ex
     \<and> ((\<forall>r\<in>set l. \<not> returned_id (snd r)) \<longrightarrow>
            same_store st (syncToMicrosoft365 svc w now ctx ex st))"
proof (cases "ms_config_enabled (microsoft365 (config svc)) \<and> contributorList ctx \<noteq> []")
  case True
  then show ?thesis
    using loop_calls [of svc w ctx ex "fst (eventWindow ctx now)" "snd (eventWindow ctx now)"
             "contributorList ctx" st]
    by (simp add: syncToMicrosoft365_eq calendar_calls_def)
next
  case False
  then show ?thesis
    by (auto simp: syncToMicrosoft365_eq calendar_calls_def same_store_refl)
qed

lemma ms_update_store:
  "truthy ex \<Longrightarrow> same_store st (syncToMicrosoft365 svc w now ctx ex st)"
  by (simp add: syncToMicrosoft365_eq same_store_refl loop_update_store)

lemma ms_nextAddr: "nextAddr st \<le> nextAddr (syncToMicrosoft365 svc w now ctx ex st)"
  by (simp add: syncToMicrosoft365_eq loop_nextAddr)

lemma ms_bound:
  "syncMap st (syncKey ctx) = Some a \<Longrightarrow>
     syncMap (syncToMicrosoft365 svc w now ctx ex st) (syncKey ctx) = Some a
   \<and> nextAddr (syncToMicrosoft365 svc w now ctx ex st) = nextAddr st
   \<and> (\<forall>b. asanaTaskId (heap (syncToMicrosoft365 svc w now ctx ex st) b) = asanaTaskId (heap st b))"
  by (simp add: syncToMicrosoft365_eq loop_bound)

lemma ms_wf: "wf_state st \<Longrightarrow> wf_state (syncToMicrosoft365 svc w now ctx ex st)"
  by (simp add: syncToMicrosoft365_eq loop_wf)

lemma ms_stored_asana:
  "wf_state st \<Longrightarrow> stored_asanaTaskId k (syncToMicrosoft365 svc w now ctx ex st) = stored_asanaTaskId k st"
  by (simp add: syncToMicrosoft365_eq loop_stored_asana)

lemma ms_sent:
  "\<exists>l. sent (syncToMicrosoft365 svc w now ctx ex st) = sent st @ l
     \<and> (\<forall>r\<in>set l. is_graph_request r) \<and> (truthy ex \<longrightarrow> (\<forall>r\<in>set l. \<not> is_create_request r))"
  using loop_sent by (simp add: syncToMicrosoft365_eq)


subsection \<open>The task step\<close>

lemma makeRequest_sent:
  "\<exists>l. snd (makeRequest svc w ep m body sent0) = sent0 @ l
     \<and> (\<forall>r\<in>set l. \<not> is_graph_request r \<and> (is_create_request r \<longrightarrow> m = ''POST''))"
  by (simp add: makeRequest_def Let_def)

lemma findUserByEmail_sent:
  "\<exists>l. snd (findUserByEmail svc w email ws sent0) = sent0 @ l
     \<and> (\<forall>r\<in>set l. \<not> is_graph_request r \<and> \<not> is_create_request r)"
  unfolding findUserByEmail_def makeRequest_def Let_def
  by (auto split: prod.splits sum.splits option.splits)

lemma updateTask_sent:
  "\<exists>l. snd (updateTask svc w tid ctx a sent0) = sent0 @ l
     \<and> (\<forall>r\<in>set l. \<not> is_graph_request r \<and> \<not> is_create_request r)"
proof (cases "truthy a")
  case True
  obtain l where l: "snd (findUserByEmail svc w (the a) (workspaceId svc) sent0) = sent0 @ l"
      "\<forall>r\<in>set l. \<not> is_graph_request r \<and> \<not> is_create_request r"
    using findUserByEmail_sent by blast
  show ?thesis
    using True l unfolding updateTask_def makeRequest_def Let_def
    by (auto split: prod.splits sum.splits)
next
  case False
  then show ?thesis
    unfolding updateTask_def makeRequest_def Let_def
    by (auto split: prod.splits sum.splits)
qed

lemma createTask_sent:
  "\<exists>l. snd (createTask svc w ctx a sent0) = sent0 @ l \<and> (\<forall>r\<in>set l. \<not> is_graph_request r)"
proof (cases "truthy a")
  case True
  obtain l where l: "snd (findUserByEmail svc w (the a) (workspaceId svc) sent0) = sent0 @ l"
      "\<forall>r\<in>set l. \<not> is_graph_request r \<and> \<not> is_create_request r"
    using findUserByEmail_sent by blast
  show ?thesis
    using True l unfolding createTask_def makeRequest_def Let_def
    by (auto split: prod.splits sum.splits)
next
  case False
  then show ?thesis
    unfolding createTask_def makeRequest_def Let_def
    by (auto split: prod.splits sum.splits)
qed

lemma assignee_eq:
  "(case contributors ctx of Some (c # cs) \<Rightarrow> Some c | _ \<Rightarrow> None) = firstContributor ctx"
  by (simp add: firstContributor_def contributorList_def split: option.splits list.splits)

lemma as_calls:
  "\<exists>l. calls (syncToAsana svc w ctx ex st) = calls st @ l
     \<and> map fst l = task_calls svc ctx ex
     \<and> ((\<forall>r\<in>set l. \<not> returned_id (snd r)) \<longrightarrow> same_store st (syncToAsana svc w ctx ex st))"
  unfolding syncToAsana_def getOrNew_def Let_def task_calls_def task_call_def same_store_def
    assignee_eq
  by (auto split: prod.splits option.splits)

lemma as_update_store:
  "truthy ex \<Longrightarrow> same_store st (syncToAsana svc w ctx ex st)"
  unfolding syncToAsana_def getOrNew_def Let_def same_store_def
  by (auto split: prod.splits option.splits)

lemma as_nextAddr: "nextAddr st \<le> nextAddr (syncToAsana svc w ctx ex st)"
  unfolding syncToAsana_def getOrNew_def Let_def
  by (auto split: prod.splits option.splits)

lemma as_bound:
  "syncMap st (syncKey ctx) = Some a \<Longrightarrow>
     syncMap (syncToAsana svc w ctx ex st) (syncKey ctx) = Some a
   \<and> nextAddr (syncToAsana svc w ctx ex st) = nextAddr st
   \<and> (\<forall>b. ms365EventId (heap (syncToAsana svc w ctx ex st) b) = ms365EventId (heap st b))"
  unfolding syncToAsana_def getOrNew_def Let_def
  by (auto split: prod.splits option.splits)

lemma as_wf: "wf_state st \<Longrightarrow> wf_state (syncToAsana svc w ctx ex st)"
  unfolding syncToAsana_def getOrNew_def Let_def wf_state_def
  by (auto split: prod.splits option.splits simp: less_Suc_eq)

lemma as_stored_ms:
  "wf_state st \<Longrightarrow> stored_ms365EventId k (syncToAsana svc w ctx ex st) = stored_ms365EventId k st"
  unfolding syncToAsana_def getOrNew_def Let_def stored_ms365EventId_def read_ms365EventId_def
    emptyRecord_def
  by (auto split: prod.splits option.splits dest: wf_stateD)

lemma as_sent:
  "\<exists>l. sent (syncToAsana svc w ctx ex st) = sent st @ l
     \<and> (\<forall>r\<in>set l. \<not> is_graph_request r) \<and> (truthy ex \<longrightarrow> (\<forall>r\<in>set l. \<not> is_create_request r))"
proof (cases "as_config_enabled (asana (config svc))")
  case False
  then show ?thesis by (simp add: syncToAsana_def)
next
  case en: True
  show ?thesis
  proof (cases "truthy ex")
    case True
    obtain l where "snd (updateTask (asanaService svc) w (the ex) ctx (firstContributor ctx) (sent st)) = sent st @ l"
      "\<forall>r\<in>set l. \<not> is_graph_request r \<and> \<not> is_create_request r"
      using updateTask_sent by blast
    then show ?thesis
      using True en unfolding syncToAsana_def Let_def assignee_eq
      by (auto split: prod.splits)
  next
    case False
    obtain l where "snd (createTask (asanaService svc) w ctx (firstContributor ctx) (sent st)) = sent st @ l"
      "\<forall>r\<in>set l. \<not> is_graph_request r"
      using createTask_sent by blast
    then show ?thesis
      using False en unfolding syncToAsana_def Let_def assignee_eq getOrNew_def
      by (auto split: prod.splits option.splits)
  qed
qed


subsection \<open>The two steps in sequence\<close>

lemma ac_bound:
  "syncMap st (syncKey ctx) = Some a \<Longrightarrow>
     syncMap (after_calendar svc w now ctx st) (syncKey ctx) = Some a
   \<and> nextAddr (after_calendar svc w now ctx st) = nextAddr st
   \<and> (\<forall>b. asanaTaskId (heap (after_calendar svc w now ctx st) b) = asanaTaskId (heap st b))"
  by (simp add: after_calendar_def ms_bound)

lemma ac_read_asana:
  "read_asanaTaskId (syncMap st (syncKey ctx)) (after_calendar svc w now ctx st)
     = stored_asanaTaskId (syncKey ctx) st"
  by (cases "syncMap st (syncKey ctx)")
     (simp_all add: stored_asanaTaskId_def read_asanaTaskId_def ac_bound)

lemma syncContext_eq:
  "syncContext svc w now ctx st =
     (let st2 = after_tasks svc w now ctx st
      in st2\<lparr>heap := (heap st2)(nextAddr st2 :=
                 \<lparr>ms365EventId = read_ms365EventId (syncMap st (syncKey ctx)) st2,
                  asanaTaskId = read_asanaTaskId (syncMap st (syncKey ctx)) st2\<rparr>),
             nextAddr := Suc (nextAddr st2),
             syncMap := (syncMap st2)(syncKey ctx \<mapsto> nextAddr st2)\<rparr>)"
proof -
  have 1: "(if createCalendarEvents (settings svc) \<and> ms_isEnabled (ms365Service svc)
            then syncToMicrosoft365 svc w now ctx (read_ms365EventId (syncMap st (syncKey ctx)) st) st
            else st) = after_calendar svc w now ctx st"
    by (simp add: after_calendar_def calendar_enabled_def stored_ms365EventId_def)
  have 2: "(if createTasks (settings svc) \<and> as_isEnabled (asanaService svc)
            then syncToAsana svc w ctx
                   (read_asanaTaskId (syncMap st (syncKey ctx)) (after_calendar svc w now ctx st))
                   (after_calendar svc w now ctx st)
            else after_calendar svc w now ctx st) = after_tasks svc w now ctx st"
    by (simp add: after_tasks_def task_enabled_def ac_read_asana)
  show ?thesis
    unfolding syncContext_def Let_def 1 2 ..
qed

lemma syncContext_calls: "calls (syncContext svc w now ctx st) = calls (after_tasks svc w now ctx st)"
  by (simp add: syncContext_eq Let_def)

lemma syncContext_sent: "sent (syncContext svc w now ctx st) = sent (after_tasks svc w now ctx st)"
  by (simp add: syncContext_eq Let_def)

lemma syncContext_stored_ms:
  "stored_ms365EventId (syncKey ctx) (syncContext svc w now ctx st)
     = read_ms365EventId (syncMap st (syncKey ctx)) (after_tasks svc w now ctx st)"
  by (simp add: syncContext_eq Let_def stored_ms365EventId_def read_ms365EventId_def)

lemma syncContext_stored_asana:
  "stored_asanaTaskId (syncKey ctx) (syncContext svc w now ctx st)
     = read_asanaTaskId (syncMap st (syncKey ctx)) (after_tasks svc w now ctx st)"
  by (simp add: syncContext_eq Let_def stored_asanaTaskId_def read_asanaTaskId_def)

lemma at_bound:
  "syncMap st (syncKey ctx) = Some a \<Longrightarrow>
     syncMap (after_tasks svc w now ctx st) (syncKey ctx) = Some a
   \<and> nextAddr (after_tasks svc w now ctx st) = nextAddr st
   \<and> (\<forall>b. ms365EventId (heap (after_tasks svc w now ctx st) b)
            = ms365EventId (heap (after_calendar svc w now ctx st) b))"
  using as_bound [of "after_calendar svc w now ctx st" ctx a] ac_bound [of st ctx a]
  by (simp add: after_tasks_def)

lemma at_nextAddr: "nextAddr st \<le> nextAddr (after_tasks svc w now ctx st)"
  unfolding after_tasks_def after_calendar_def
  by (auto intro: order_trans [OF ms_nextAddr as_nextAddr] ms_nextAddr as_nextAddr)

lemma at_wf: "wf_state st \<Longrightarrow> wf_state (after_tasks svc w now ctx st)"
  unfolding after_tasks_def after_calendar_def
  by (auto intro: ms_wf as_wf)

lemma syncContext_wf: "wf_state st \<Longrightarrow> wf_state (syncContext svc w now ctx st)"
  using at_wf [of st svc w now ctx]
  by (auto simp: syncContext_eq Let_def wf_state_def less_Suc_eq)

lemma wf_initial: "wf_state initial"
  by (simp add: wf_state_def initial_def)

lemma syncContext_calls_split:
  "\<exists>l1 l2. calls (syncContext svc w now ctx st) = calls st @ l1 @ l2
     \<and> map fst l1 = (if calendar_enabled svc
                      then calendar_calls svc ctx now (stored_ms365EventId (syncKey ctx) st)
                      else [])
     \<and> map fst l2 = (if task_enabled svc
                      then task_calls svc ctx (stored_asanaTaskId (syncKey ctx) st)
                      else [])
     \<and> ((\<forall>r\<in>set l1. \<not> returned_id (snd r)) \<longrightarrow>
            same_store st (after_calendar svc w now ctx st))
     \<and> ((\<forall>r\<in>set l2. \<not> returned_id (snd r)) \<longrightarrow>
            same_store (after_calendar svc w now ctx st) (after_tasks svc w now ctx st))"
proof -
  obtain l1 where l1: "calls (after_calendar svc w now ctx st) = calls st @ l1"
    "map fst l1 = (if calendar_enabled svc
                   then calendar_calls svc ctx now (stored_ms365EventId (syncKey ctx) st) else [])"
    "(\<forall>r\<in>set l1. \<not> returned_id (snd r)) \<longrightarrow> same_store st (after_calendar svc w now ctx st)"
  proof (cases "calendar_enabled svc")
    case True
    with ms_calls [of svc w now ctx "stored_ms365EventId (syncKey ctx) st" st] that
    show ?thesis by (auto simp: after_calendar_def)
  next
    case False
    with that [of "[]"] show ?thesis by (simp add: after_calendar_def same_store_refl)
  qed
  obtain l2 where l2: "calls (after_tasks svc w now ctx st) = calls (after_calendar svc w now ctx st) @ l2"
    "map fst l2 = (if task_enabled svc
                   then task_calls svc ctx (stored_asanaTaskId (syncKey ctx) st) else [])"
    "(\<forall>r\<in>set l2. \<not> returned_id (snd r)) \<longrightarrow>
        same_store (after_calendar svc w now ctx st) (after_tasks svc w now ctx st)"
  proof (cases "task_enabled svc")
    case True
    with as_calls [of svc w ctx "stored_asanaTaskId (syncKey ctx) st" "after_calendar svc w now ctx st"] that
    show ?thesis by (auto simp: after_tasks_def)
  next
    case False
    with that [of "[]"] show ?thesis by (simp add: after_tasks_def same_store_refl)
  qed
  show ?thesis
    using l1 l2 by (intro exI [of _ l1] exI [of _ l2]) (simp add: syncContext_calls)
qed


section \<open>The effect of one reconciliation\<close>

lemma truthy_bound:
  "truthy (stored_ms365EventId k st) \<Longrightarrow> \<exists>a. syncMap st k = Some a"
  "truthy (stored_asanaTaskId k st) \<Longrightarrow> \<exists>a. syncMap st k = Some a"
  by (cases "syncMap st k"; simp add: stored_ms365EventId_def read_ms365EventId_def
        stored_asanaTaskId_def read_asanaTaskId_def truthy_def)+

lemma same_storeD:
  "same_store st st' \<Longrightarrow> syncMap st' = syncMap st"
  "same_store st st' \<Longrightarrow> heap st' = heap st"
  "same_store st st' \<Longrightarrow> nextAddr st' = nextAddr st"
  by (simp_all add: same_store_def)

lemma stored_absent:
  "syncMap st (syncKey ctx) = None \<Longrightarrow>
     stored_ms365EventId (syncKey ctx) (syncContext svc w now ctx st) = None
   \<and> stored_asanaTaskId (syncKey ctx) (syncContext svc w now ctx st) = None"
  by (simp add: syncContext_stored_ms syncContext_stored_asana read_ms365EventId_def
        read_asanaTaskId_def)

text \<open>The calendar field after a reconciliation is the one the calendar step left.\<close>

lemma stored_ms_after_calendar:
  "stored_ms365EventId (syncKey ctx) (syncContext svc w now ctx st)
     = read_ms365EventId (syncMap st (syncKey ctx)) (after_calendar svc w now ctx st)"
  by (cases "syncMap st (syncKey ctx)")
     (simp_all add: syncContext_stored_ms read_ms365EventId_def at_bound)

lemma stored_ms_unanswered:
  assumes "same_store st (after_calendar svc w now ctx st)"
  shows "stored_ms365EventId (syncKey ctx) (syncContext svc w now ctx st)
           = stored_ms365EventId (syncKey ctx) st"
proof -
  have "read_ms365EventId (syncMap st (syncKey ctx)) (after_calendar svc w now ctx st)
          = read_ms365EventId (syncMap st (syncKey ctx)) st"
    using assms by (simp add: read_ms365EventId_def same_storeD split: option.splits)
  then show ?thesis
    by (simp add: stored_ms_after_calendar) (simp add: stored_ms365EventId_def)
qed

lemma stored_ms_kept:
  assumes "truthy (stored_ms365EventId (syncKey ctx) st)"
  shows "stored_ms365EventId (syncKey ctx) (syncContext svc w now ctx st)
           = stored_ms365EventId (syncKey ctx) st"
proof -
  have "same_store st (after_calendar svc w now ctx st)"
    using assms by (simp add: after_calendar_def ms_update_store same_store_refl)
  then show ?thesis by (rule stored_ms_unanswered)
qed

lemma stored_asana_unanswered:
  assumes "same_store (after_calendar svc w now ctx st) (after_tasks svc w now ctx st)"
  shows "stored_asanaTaskId (syncKey ctx) (syncContext svc w now ctx st)
           = stored_asanaTaskId (syncKey ctx) st"
proof -
  have "read_asanaTaskId (syncMap st (syncKey ctx)) (after_tasks svc w now ctx st)
          = read_asanaTaskId (syncMap st (syncKey ctx)) (after_calendar svc w now ctx st)"
    using assms by (simp add: read_asanaTaskId_def same_storeD split: option.splits)
  then show ?thesis
    by (simp add: syncContext_stored_asana ac_read_asana)
qed

lemma stored_asana_kept:
  assumes "truthy (stored_asanaTaskId (syncKey ctx) st)"
  shows "stored_asanaTaskId (syncKey ctx) (syncContext svc w now ctx st)
           = stored_asanaTaskId (syncKey ctx) st"
proof -
  have "same_store (after_calendar svc w now ctx st) (after_tasks svc w now ctx st)"
    using assms by (simp add: after_tasks_def as_update_store same_store_refl)
  then show ?thesis by (rule stored_asana_unanswered)
qed

lemma wired_calendar:
  "wired svc \<Longrightarrow> calendar_enabled svc \<Longrightarrow> ms_config_enabled (microsoft365 (config svc))"
  by (simp add: wired_def calendar_enabled_def ms_isEnabled_def)

lemma wired_task:
  "wired svc \<Longrightarrow> task_enabled svc \<Longrightarrow> as_config_enabled (asana (config svc))"
  by (simp add: wired_def task_enabled_def as_isEnabled_def)

lemma calendar_calls_filter:
  "filter is_task_create (calendar_calls svc ctx now ex) = []"
  "filter is_task_update (calendar_calls svc ctx now ex) = []"
  "filter is_task_call (calendar_calls svc ctx now ex) = []"
  "filter is_calendar_call (calendar_calls svc ctx now ex) = calendar_calls svc ctx now ex"
  "filter is_calendar_create (calendar_calls svc ctx now ex)
     = (if truthy ex then [] else calendar_calls svc ctx now ex)"
  "filter is_calendar_update (calendar_calls svc ctx now ex)
     = (if truthy ex then calendar_calls svc ctx now ex else [])"
  by (auto simp: calendar_calls_def calendar_call_def is_task_call_def is_calendar_call_def
        filter_empty_conv filter_id_conv)

lemma task_calls_filter:
  "filter is_calendar_create (task_calls svc ctx ex) = []"
  "filter is_calendar_update (task_calls svc ctx ex) = []"
  "filter is_calendar_call (task_calls svc ctx ex) = []"
  "filter is_task_call (task_calls svc ctx ex) = task_calls svc ctx ex"
  "filter is_task_create (task_calls svc ctx ex)
     = (if truthy ex then [] else task_calls svc ctx ex)"
  "filter is_task_update (task_calls svc ctx ex)
     = (if truthy ex then task_calls svc ctx ex else [])"
  by (auto simp: task_calls_def task_call_def is_task_call_def is_calendar_call_def)

lemma length_calendar_calls:
  "length (calendar_calls svc ctx now ex)
     = (if ms_config_enabled (microsoft365 (config svc)) then length (contributorList ctx) else 0)"
  by (simp add: calendar_calls_def)

lemma length_task_calls:
  "length (task_calls svc ctx ex) = (if as_config_enabled (asana (config svc)) then 1 else 0)"
  by (simp add: task_calls_def)

lemma syncContext_new_calls:
  "map fst (new_calls st (syncContext svc w now ctx st))
     = (if calendar_enabled svc
        then calendar_calls svc ctx now (stored_ms365EventId (syncKey ctx) st) else [])
     @ (if task_enabled svc
        then task_calls svc ctx (stored_asanaTaskId (syncKey ctx) st) else [])"
proof -
  obtain l1 l2 where "calls (syncContext svc w now ctx st) = calls st @ l1 @ l2"
    "map fst l1 = (if calendar_enabled svc
        then calendar_calls svc ctx now (stored_ms365EventId (syncKey ctx) st) else [])"
    "map fst l2 = (if task_enabled svc
        then task_calls svc ctx (stored_asanaTaskId (syncKey ctx) st) else [])"
    using syncContext_calls_split by blast
  then show ?thesis by (simp add: new_calls_def)
qed

lemma syncContext_calls_ext: "\<exists>l. calls (syncContext svc w now ctx st) = calls st @ l"
  using syncContext_calls_split [of svc w now ctx st] by auto

lemma seq_calls_ext: "\<exists>l. calls (syncContext_seq svc w ctx nows st) = calls st @ l"
proof (induction nows arbitrary: st)
  case Nil
  show ?case by (simp add: syncContext_seq_def)
next
  case (Cons now nows)
  obtain l where "calls (syncContext svc w now ctx st) = calls st @ l"
    using syncContext_calls_ext by blast
  moreover obtain l' where "calls (syncContext_seq svc w ctx nows (syncContext svc w now ctx st))
      = calls (syncContext svc w now ctx st) @ l'"
    using Cons.IH by blast
  ultimately show ?case by (simp add: syncContext_seq_def)
qed

lemma seq_Cons:
  "syncContext_seq svc w ctx (now # nows) st
     = syncContext_seq svc w ctx nows (syncContext svc w now ctx st)"
  by (simp add: syncContext_seq_def)

lemma seq_new_calls:
  "new_calls st (syncContext_seq svc w ctx (now # nows) st)
     = new_calls st (syncContext svc w now ctx st)
       @ new_calls (syncContext svc w now ctx st)
           (syncContext_seq svc w ctx nows (syncContext svc w now ctx st))"
proof -
  obtain l where l: "calls (syncContext svc w now ctx st) = calls st @ l"
    using syncContext_calls_ext by blast
  obtain l' where l': "calls (syncContext_seq svc w ctx nows (syncContext svc w now ctx st))
      = calls (syncContext svc w now ctx st) @ l'"
    using seq_calls_ext by blast
  show ?thesis
    by (simp add: seq_Cons new_calls_def l l')
qed


subsection \<open>Evaluating the examples\<close>

lemmas demo_defs = demo_config_def demo_service_def calendar_off_service_def asana_off_config_def
  asana_off_service_def asana_reply_def world_ok_def world_calendar_down_def world_down_def
  ctx_one_def ctx_two_def ctx_bare_def synced_def initial_def SyncService_new_def
  Microsoft365Service_new_def AsanaService_new_def initializeClient_def
  Microsoft365Service_ready_def startsInitialization_def

lemmas adapter_defs = createCalendarEvent_def updateCalendarEvent_def createTask_def
  updateTask_def findUserByEmail_def makeRequest_def ms_config_enabled_def as_config_enabled_def
  ms_isEnabled_def as_isEnabled_def accessToken_def workspaceId_def truthy_def

lemmas sync_defs = syncContext_def syncToMicrosoft365_def syncToAsana_def
  syncToMicrosoft365_body_def getOrNew_def settings_def defaultSyncSettings_def syncKey_def
  read_ms365EventId_def read_asanaTaskId_def emptyRecord_def

lemma demo_enabled: "calendar_enabled demo_service" "task_enabled demo_service" "wired demo_service"
  by (simp_all add: calendar_enabled_def task_enabled_def wired_def demo_defs adapter_defs
        settings_def defaultSyncSettings_def)

lemma count_calls_append:
  "count_calls P (l @ l') = count_calls P l + count_calls P l'"
  by (simp add: count_calls_def)

lemma count_calls_map: "count_calls P l = length (filter P (map fst l))"
  by (simp add: count_calls_def)

lemma syncContext_counts:
  "count_calls P (new_calls st (syncContext svc w now ctx st))
     = length (filter P (if calendar_enabled svc
         then calendar_calls svc ctx now (stored_ms365EventId (syncKey ctx) st) else []))
     + length (filter P (if task_enabled svc
         then task_calls svc ctx (stored_asanaTaskId (syncKey ctx) st) else []))"
  by (simp add: count_calls_def syncContext_new_calls)

lemma seq_task_updates:
  assumes "task_enabled svc" "wired svc"
  shows "truthy (stored_asanaTaskId (syncKey ctx) st) \<Longrightarrow>
     count_calls is_task_update (new_calls st (syncContext_seq svc w ctx nows st)) = length nows
   \<and> count_calls is_task_create (new_calls st (syncContext_seq svc w ctx nows st)) = 0
   \<and> stored_asanaTaskId (syncKey ctx) (syncContext_seq svc w ctx nows st)
       = stored_asanaTaskId (syncKey ctx) st"
proof (induction nows arbitrary: st)
  case Nil
  show ?case by (simp add: syncContext_seq_def new_calls_def count_calls_def)
next
  case (Cons now nows)
  let ?st1 = "syncContext svc w now ctx st"
  have k: "stored_asanaTaskId (syncKey ctx) ?st1 = stored_asanaTaskId (syncKey ctx) st"
    using Cons.prems by (rule stored_asana_kept)
  have en: "as_config_enabled (asana (config svc))"
    using assms by (simp add: wired_task)
  have one: "count_calls is_task_update (new_calls st ?st1) = 1"
            "count_calls is_task_create (new_calls st ?st1) = 0"
    using Cons.prems assms(1) en
    by (simp_all add: syncContext_counts calendar_calls_filter task_calls_filter length_task_calls)
  from Cons.IH [of ?st1] Cons.prems k one show ?case
    by (simp add: seq_new_calls count_calls_append) (simp add: seq_Cons)
qed

lemma seq_calendar_updates:
  assumes "calendar_enabled svc" "wired svc"
  shows "truthy (stored_ms365EventId (syncKey ctx) st) \<Longrightarrow>
     count_calls is_calendar_update (new_calls st (syncContext_seq svc w ctx nows st))
       = length nows * length (contributorList ctx)
   \<and> count_calls is_calendar_create (new_calls st (syncContext_seq svc w ctx nows st)) = 0
   \<and> stored_ms365EventId (syncKey ctx) (syncContext_seq svc w ctx nows st)
       = stored_ms365EventId (syncKey ctx) st"
proof (induction nows arbitrary: st)
  case Nil
  show ?case by (simp add: syncContext_seq_def new_calls_def count_calls_def)
next
  case (Cons now nows)
  let ?st1 = "syncContext svc w now ctx st"
  have k: "stored_ms365EventId (syncKey ctx) ?st1 = stored_ms365EventId (syncKey ctx) st"
    using Cons.prems by (rule stored_ms_kept)
  have en: "ms_config_enabled (microsoft365 (config svc))"
    using assms by (simp add: wired_calendar)
  have one: "count_calls is_calendar_update (new_calls st ?st1) = length (contributorList ctx)"
            "count_calls is_calendar_create (new_calls st ?st1) = 0"
    using Cons.prems assms(1) en
    by (simp_all add: syncContext_counts calendar_calls_filter task_calls_filter
          length_calendar_calls)
  from Cons.IH [of ?st1] Cons.prems k one show ?case
    by (simp add: seq_new_calls count_calls_append) (simp add: seq_Cons)
qed

lemma demo_gates:
  "createCalendarEvents (settings demo_service)" "ms_isEnabled (ms365Service demo_service)"
  "ms_config_enabled (microsoft365 (config demo_service))"
  "createTasks (settings demo_service)" "as_isEnabled (asanaService demo_service)"
  "as_config_enabled (asana (config demo_service))"
  by (simp_all add: demo_defs adapter_defs settings_def defaultSyncSettings_def)

lemma demo_createCalendarEvent:
  "\<not> isl (toISOString s) \<Longrightarrow> \<not> isl (toISOString e) \<Longrightarrow>
     fst (createCalendarEvent (ms365Service demo_service) world_ok u c s e sn) = Some ''evt-1''"
  "fst (createCalendarEvent (ms365Service demo_service) world_calendar_down u c s e sn) = None"
  "fst (createCalendarEvent (ms365Service demo_service) world_down u c s e sn) = None"
  by (auto simp: createCalendarEvent_def Let_def ms_config_enabled_def demo_defs
        split: sum.splits)

lemma demo_updateCalendarEvent:
  "\<not> isl (toISOString s) \<Longrightarrow> \<not> isl (toISOString e) \<Longrightarrow>
     fst (updateCalendarEvent (ms365Service demo_service) world_ok u i c s e sn) = True"
  "fst (updateCalendarEvent (ms365Service demo_service) world_down u i c s e sn) = False"
  by (auto simp: updateCalendarEvent_def Let_def ms_config_enabled_def demo_defs
        split: sum.splits)

lemma demo_createTask:
  "\<not> isl (due_on c) \<Longrightarrow>
     fst (createTask (asanaService demo_service) world_ok c a sn) = Some ''task-1''"
  "\<not> isl (due_on c) \<Longrightarrow>
     fst (createTask (asanaService demo_service) world_calendar_down c a sn) = Some ''task-1''"
  "fst (createTask (asanaService demo_service) world_down c a sn) = None"
  by (auto simp: createTask_def makeRequest_def Let_def as_config_enabled_def accessToken_def
        demo_defs split: prod.splits sum.splits)

lemma demo_updateTask:
  "\<not> isl (due_on c) \<Longrightarrow>
     fst (updateTask (asanaService demo_service) world_ok i c a sn) = True"
  "fst (updateTask (asanaService demo_service) world_down i c a sn) = False"
  by (auto simp: updateTask_def makeRequest_def Let_def as_config_enabled_def accessToken_def
        demo_defs split: prod.splits sum.splits)

lemmas run_defs = syncContext_def syncToMicrosoft365_def syncToAsana_def
  syncToMicrosoft365_body_def getOrNew_def syncKey_def read_ms365EventId_def
  read_asanaTaskId_def emptyRecord_def truthy_def split_def Let_def new_calls_def
  getSyncStatus_def initial_def synced_def ctx_one_def ctx_two_def ctx_bare_def
  demo_gates demo_createCalendarEvent demo_updateCalendarEvent demo_createTask demo_updateTask
  due_on_def toISOString_Valid getTime_def new_Date_def maxTime_def

lemma demo_adapters_ready:
  "ms_client (ms365Service demo_service) \<noteq> None"
  "ms_config_enabled (ms_config (ms365Service demo_service))"
  "as_config_enabled (as_config (asanaService demo_service))"
  "accessToken (asanaService demo_service) = ''token''"
  by (simp_all add: demo_defs ms_config_enabled_def as_config_enabled_def accessToken_def)

lemma demo_mixed_ann:
  assumes "\<not> isl (toISOString s)" "\<not> isl (toISOString e)"
  shows "fst (createCalendarEvent (ms365Service demo_service) world_mixed ''ann@example.com''
            c s e sn) = Some ''evt-ann''"
proof -
  obtain a b where "toISOString s = Inr a" "toISOString e = Inr b"
    using assms by (cases "toISOString s"; cases "toISOString e") auto
  then show ?thesis
    by (simp add: createCalendarEvent_def Let_def demo_adapters_ready world_mixed_def)
qed

lemma demo_mixed_bob:
  "fst (createCalendarEvent (ms365Service demo_service) world_mixed ''bob@example.com''
          c s e sn) = None"
  by (simp add: createCalendarEvent_def Let_def demo_adapters_ready world_mixed_def
        split: sum.splits)

lemma demo_mixed_task:
  assumes "\<not> isl (due_on c)"
  shows "fst (createTask (asanaService demo_service) world_mixed c a sn) = Some ''task-1''"
proof -
  obtain d where "due_on c = Inr d"
    using assms by (cases "due_on c") auto
  then show ?thesis
    by (simp add: createTask_def makeRequest_def Let_def split_def demo_adapters_ready
          world_mixed_def asana_reply_def)
qed

lemmas run2_defs = run_defs demo_mixed_ann demo_mixed_bob demo_mixed_task pending_def

section \<open>Requests, other keys and unanswered creates\<close>

lemma iso_example:
  "isoString 1736510400000 = ''2025-01-10T12:00:00.000Z''"
  "isoString 1736508600000 = ''2025-01-10T11:30:00.000Z''"
  "isoString 1736512200000 = ''2025-01-10T12:30:00.000Z''"
  by code_simp+

lemma body_events:
  "\<exists>l. sent (syncToMicrosoft365_body svc w ctx ex s e c st) = sent st @ l
     \<and> (\<forall>r\<in>set l. window_event s e r)"
  unfolding syncToMicrosoft365_body_def getOrNew_def Let_def createCalendarEvent_def
    updateCalendarEvent_def window_event_def
  by (auto split: prod.splits option.splits sum.splits if_splits)


lemma loop_events:
  "\<exists>l. sent (syncToMicrosoft365_loop svc w ctx ex s e cs st) = sent st @ l
     \<and> (\<forall>r\<in>set l. window_event s e r)"
proof (induction cs arbitrary: st)
  case Nil
  show ?case by simp
next
  case (Cons c cs)
  let ?st1 = "syncToMicrosoft365_body svc w ctx ex s e c st"
  obtain l1 where l1: "sent ?st1 = sent st @ l1" "\<forall>r\<in>set l1. window_event s e r"
    using body_events by blast
  obtain l2 where l2: "sent (syncToMicrosoft365_loop svc w ctx ex s e cs ?st1) = sent ?st1 @ l2"
     "\<forall>r\<in>set l2. window_event s e r"
    using Cons.IH by blast
  show ?case
    by (rule exI [of _ "l1 @ l2"]) (use l1 l2 in auto)
qed

lemma ms_events:
  "\<exists>l. sent (syncToMicrosoft365 svc w now ctx ex st) = sent st @ l
     \<and> (\<forall>r\<in>set l. window_event (fst (eventWindow ctx now)) (snd (eventWindow ctx now)) r)"
  using loop_events by (simp add: syncToMicrosoft365_eq)

lemma after_calendar_sent:
  "\<exists>l. sent (after_calendar svc w now ctx st) = sent st @ l
     \<and> (\<forall>r\<in>set l. is_graph_request r
            \<and> window_event (fst (eventWindow ctx now)) (snd (eventWindow ctx now)) r)
     \<and> (\<not> calendar_enabled svc \<longrightarrow> l = [])
     \<and> (truthy (stored_ms365EventId (syncKey ctx) st) \<longrightarrow> (\<forall>r\<in>set l. \<not> is_create_request r))"
proof (cases "calendar_enabled svc")
  case False
  then show ?thesis by (simp add: after_calendar_def)
next
  case True
  let ?ex = "stored_ms365EventId (syncKey ctx) st"
  obtain l where l: "sent (syncToMicrosoft365 svc w now ctx ?ex st) = sent st @ l"
     "\<forall>r\<in>set l. is_graph_request r" "truthy ?ex \<longrightarrow> (\<forall>r\<in>set l. \<not> is_create_request r)"
    using ms_sent by blast
  obtain l' where l': "sent (syncToMicrosoft365 svc w now ctx ?ex st) = sent st @ l'"
     "\<forall>r\<in>set l'. window_event (fst (eventWindow ctx now)) (snd (eventWindow ctx now)) r"
    using ms_events by blast
  have "l = l'" using l(1) l'(1) by simp
  with l l' True show ?thesis by (auto simp: after_calendar_def)
qed

lemma after_tasks_sent:
  "\<exists>l. sent (after_tasks svc w now ctx st) = sent (after_calendar svc w now ctx st) @ l
     \<and> (\<forall>r\<in>set l. \<not> is_graph_request r)
     \<and> (\<not> task_enabled svc \<longrightarrow> l = [])
     \<and> (truthy (stored_asanaTaskId (syncKey ctx) st) \<longrightarrow> (\<forall>r\<in>set l. \<not> is_create_request r))"
proof (cases "task_enabled svc")
  case False
  then show ?thesis by (simp add: after_tasks_def)
next
  case True
  with as_sent [of svc w ctx "stored_asanaTaskId (syncKey ctx) st" "after_calendar svc w now ctx st"]
  show ?thesis by (auto simp: after_tasks_def)
qed

lemma syncContext_requests:
  "\<exists>l1 l2. new_requests st (syncContext svc w now ctx st) = l1 @ l2
     \<and> (\<forall>r\<in>set l1. is_graph_request r
            \<and> window_event (fst (eventWindow ctx now)) (snd (eventWindow ctx now)) r)
     \<and> (\<not> calendar_enabled svc \<longrightarrow> l1 = [])
     \<and> (truthy (stored_ms365EventId (syncKey ctx) st) \<longrightarrow> (\<forall>r\<in>set l1. \<not> is_create_request r))
     \<and> (\<forall>r\<in>set l2. \<not> is_graph_request r)
     \<and> (\<not> task_enabled svc \<longrightarrow> l2 = [])
     \<and> (truthy (stored_asanaTaskId (syncKey ctx) st) \<longrightarrow> (\<forall>r\<in>set l2. \<not> is_create_request r))"
proof -
  obtain l1 where l1: "sent (after_calendar svc w now ctx st) = sent st @ l1"
     "\<forall>r\<in>set l1. is_graph_request r
            \<and> window_event (fst (eventWindow ctx now)) (snd (eventWindow ctx now)) r"
     "\<not> calendar_enabled svc \<longrightarrow> l1 = []"
     "truthy (stored_ms365EventId (syncKey ctx) st) \<longrightarrow> (\<forall>r\<in>set l1. \<not> is_create_request r)"
    using after_calendar_sent by blast
  obtain l2 where l2: "sent (after_tasks svc w now ctx st) = sent (after_calendar svc w now ctx st) @ l2"
     "\<forall>r\<in>set l2. \<not> is_graph_request r"
     "\<not> task_enabled svc \<longrightarrow> l2 = []"
     "truthy (stored_asanaTaskId (syncKey ctx) st) \<longrightarrow> (\<forall>r\<in>set l2. \<not> is_create_request r)"
    using after_tasks_sent by blast
  have "new_requests st (syncContext svc w now ctx st) = l1 @ l2"
    by (simp add: new_requests_def syncContext_sent l1(1) l2(1))
  with l1 l2 show ?thesis by blast
qed

lemma syncContext_other_key:
  assumes "wf_state st" "k \<noteq> syncKey ctx"
  shows "stored_ms365EventId k (syncContext svc w now ctx st)
           = stored_ms365EventId k (after_tasks svc w now ctx st)"
    and "stored_asanaTaskId k (syncContext svc w now ctx st)
           = stored_asanaTaskId k (after_tasks svc w now ctx st)"
  using assms(2) wf_stateD [OF at_wf [OF assms(1), of svc w now ctx], of k]
  by (auto simp: syncContext_eq Let_def stored_ms365EventId_def stored_asanaTaskId_def
        read_ms365EventId_def read_asanaTaskId_def split: option.splits)

lemma calendar_off_stored:
  assumes "wf_state st" "\<not> calendar_enabled svc"
  shows "stored_ms365EventId k (syncContext svc w now ctx st) = stored_ms365EventId k st"
proof (cases "k = syncKey ctx")
  case True
  have "same_store st (after_calendar svc w now ctx st)"
    using assms(2) by (simp add: after_calendar_def same_store_refl)
  with True show ?thesis by (simp add: stored_ms_unanswered)
next
  case False
  have "stored_ms365EventId k (after_tasks svc w now ctx st) = stored_ms365EventId k st"
    using assms by (simp add: after_tasks_def after_calendar_def as_stored_ms)
  with False assms(1) show ?thesis by (simp add: syncContext_other_key)
qed

lemma task_off_stored:
  assumes "wf_state st" "\<not> task_enabled svc"
  shows "stored_asanaTaskId k (syncContext svc w now ctx st) = stored_asanaTaskId k st"
proof (cases "k = syncKey ctx")
  case True
  have "same_store (after_calendar svc w now ctx st) (after_tasks svc w now ctx st)"
    using assms(2) by (simp add: after_tasks_def same_store_refl)
  with True show ?thesis by (simp add: stored_asana_unanswered)
next
  case False
  have "stored_asanaTaskId k (after_tasks svc w now ctx st) = stored_asanaTaskId k st"
    using assms by (simp add: after_tasks_def after_calendar_def ms_stored_asana)
  with False assms(1) show ?thesis by (simp add: syncContext_other_key)
qed

lemma calendar_unanswered:
  assumes "\<not> truthy (stored_ms365EventId (syncKey ctx) st)"
    and "\<forall>c\<in>set (new_calls st (syncContext svc w now ctx st)).
           is_calendar_create (fst c) \<longrightarrow> \<not> returned_id (snd c)"
  shows "same_store st (after_calendar svc w now ctx st)"
proof -
  obtain l1 l2 where l: "calls (syncContext svc w now ctx st) = calls st @ l1 @ l2"
    "map fst l1 = (if calendar_enabled svc
        then calendar_calls svc ctx now (stored_ms365EventId (syncKey ctx) st) else [])"
    "(\<forall>r\<in>set l1. \<not> returned_id (snd r)) \<longrightarrow> same_store st (after_calendar svc w now ctx st)"
    using syncContext_calls_split by blast
  have "\<not> returned_id (snd r)" if r: "r \<in> set l1" for r
  proof -
    have "fst r \<in> set (map fst l1)" using r by simp
    then have "is_calendar_create (fst r)"
      using assms(1) l(2)
      by (auto simp: calendar_calls_def calendar_call_def split: if_splits)
    moreover have "r \<in> set (new_calls st (syncContext svc w now ctx st))"
      using r l(1) by (simp add: new_calls_def)
    ultimately show ?thesis using assms(2) by blast
  qed
  with l(3) show ?thesis by blast
qed

lemma task_unanswered:
  assumes "\<not> truthy (stored_asanaTaskId (syncKey ctx) st)"
    and "\<forall>c\<in>set (new_calls st (syncContext svc w now ctx st)).
           is_task_create (fst c) \<longrightarrow> \<not> returned_id (snd c)"
  shows "same_store (after_calendar svc w now ctx st) (after_tasks svc w now ctx st)"
proof -
  obtain l1 l2 where l: "calls (syncContext svc w now ctx st) = calls st @ l1 @ l2"
    "map fst l2 = (if task_enabled svc
        then task_calls svc ctx (stored_asanaTaskId (syncKey ctx) st) else [])"
    "(\<forall>r\<in>set l2. \<not> returned_id (snd r)) \<longrightarrow>
        same_store (after_calendar svc w now ctx st) (after_tasks svc w now ctx st)"
    using syncContext_calls_split by blast
  have "\<not> returned_id (snd r)" if r: "r \<in> set l2" for r
  proof -
    have "fst r \<in> set (map fst l2)" using r by simp
    then have "is_task_create (fst r)"
      using assms(1) l(2)
      by (auto simp: task_calls_def task_call_def split: if_splits)
    moreover have "r \<in> set (new_calls st (syncContext svc w now ctx st))"
      using r l(1) by (simp add: new_calls_def)
    ultimately show ?thesis using assms(2) by blast
  qed
  with l(3) show ?thesis by blast
qed

lemma new_calls_member:
  assumes "c \<in> set (new_calls st (syncContext svc w now ctx st))"
  shows "(calendar_enabled svc \<and> fst c \<in> set (calendar_calls svc ctx now
            (stored_ms365EventId (syncKey ctx) st)))
       \<or> (task_enabled svc \<and> fst c \<in> set (task_calls svc ctx
            (stored_asanaTaskId (syncKey ctx) st)))"
proof -
  have "fst c \<in> set (map fst (new_calls st (syncContext svc w now ctx st)))"
    using assms by simp
  then show ?thesis
    by (auto simp: syncContext_new_calls split: if_splits)
qed

lemma calendar_calls_member:
  "c \<in> set (calendar_calls svc ctx now ex) \<Longrightarrow>
     is_calendar_call c \<and> \<not> is_task_call c
   \<and> window c = Some (eventWindow ctx now)
   \<and> (truthy ex \<longrightarrow> is_calendar_update c \<and> updated_id c = ex)
   \<and> (\<not> truthy ex \<longrightarrow> is_calendar_create c)"
  by (auto simp: calendar_calls_def calendar_call_def is_calendar_call_def is_task_call_def
        truthy_def split: if_splits option.splits)

lemma task_calls_member:
  "c \<in> set (task_calls svc ctx ex) \<Longrightarrow>
     is_task_call c \<and> \<not> is_calendar_call c
   \<and> (truthy ex \<longrightarrow> is_task_update c \<and> updated_id c = ex)
   \<and> (\<not> truthy ex \<longrightarrow> is_task_create c)"
  by (auto simp: task_calls_def task_call_def is_calendar_call_def is_task_call_def
        truthy_def split: if_splits option.splits)

lemma getSyncStatus_key:
  "getSyncStatus (contentItemId ctx) (languageId ctx) st
     = (case syncMap st (syncKey ctx) of Some a \<Rightarrow> Some (heap st a) | None \<Rightarrow> None)"
  by (simp add: getSyncStatus_def syncKey_def)

lemma updateCalendarEvent_effect:
  "\<exists>l. snd (updateCalendarEvent svc w u i c s e sn) = sn @ l
     \<and> (\<forall>r\<in>set l. \<not> is_create_request r)
     \<and> (fst (updateCalendarEvent svc w u i c s e sn) \<longleftrightarrow>
          (\<exists>ev. l = [GraphPatch (''/users/'' @ u @ ''/calendar/events/'' @ i) ev]
             \<and> answered w sn (GraphPatch (''/users/'' @ u @ ''/calendar/events/'' @ i) ev)))"
  unfolding updateCalendarEvent_def Let_def answered_def
  by (auto split: sum.splits)

lemma updateTask_effect:
  "\<exists>l. snd (updateTask svc w i c a sn) = sn @ l
     \<and> (\<forall>r\<in>set l. \<not> is_create_request r)
     \<and> (fst (updateTask svc w i c a sn) \<longleftrightarrow>
          (\<exists>gets body. l = gets @ [AsanaFetch ''PUT'' (apiBaseUrl @ ''/tasks/'' @ i)
                                     (accessToken svc) (Some body)]
             \<and> answered w (sn @ gets)
                  (AsanaFetch ''PUT'' (apiBaseUrl @ ''/tasks/'' @ i) (accessToken svc) (Some body))))"
proof (cases "\<not> as_config_enabled (as_config svc) \<or> accessToken svc = [] \<or> isl (due_on c)")
  case True
  then show ?thesis by (auto simp: updateTask_def split: sum.splits)
next
  case False
  then obtain due where due: "due_on c = Inr due"
    by (cases "due_on c") auto
  define fu where "fu = (if truthy a then findUserByEmail svc w (the a) (workspaceId svc) sn
                         else (None, sn))"
  obtain gets where gets: "snd fu = sn @ gets" "\<forall>r\<in>set gets. \<not> is_create_request r"
  proof (cases "truthy a")
    case True
    with findUserByEmail_sent [of svc w "the a" "workspaceId svc" sn] that show ?thesis
      by (auto simp: fu_def)
  next
    case False
    with that [of "[]"] show ?thesis by (simp add: fu_def)
  qed
  define body where "body = (let updateData = \<lparr>td_name = eventSubject c,
                           td_notes = taskNotes c,
                           td_due_on = due,
                           td_projects = None,
                           td_workspace = None,
                           td_assignee = None\<rparr>
      in if truthy (fst fu) then updateData\<lparr>td_assignee := fst fu\<rparr> else updateData)"
  let ?req = "AsanaFetch ''PUT'' (apiBaseUrl @ ''/tasks/'' @ i) (accessToken svc) (Some body)"
  have res: "updateTask svc w i c a sn
               = (\<not> isl (asana_api w (sn @ gets) ?req), sn @ gets @ [?req])"
    using False gets(1) due
    unfolding fu_def body_def updateTask_def makeRequest_def Let_def split_def
    by (auto split: sum.splits)
  show ?thesis
  proof (intro exI [of _ "gets @ [?req]"] conjI)
    show "snd (updateTask svc w i c a sn) = sn @ gets @ [?req]" by (simp add: res)
    show "\<forall>r\<in>set (gets @ [?req]). \<not> is_create_request r" using gets(2) by simp
    show "fst (updateTask svc w i c a sn) \<longleftrightarrow>
          (\<exists>gets' body'. gets @ [?req] = gets' @ [AsanaFetch ''PUT'' (apiBaseUrl @ ''/tasks/'' @ i)
                                     (accessToken svc) (Some body')]
             \<and> answered w (sn @ gets')
                  (AsanaFetch ''PUT'' (apiBaseUrl @ ''/tasks/'' @ i) (accessToken svc) (Some body')))"
      by (auto simp: res answered_def)
  qed
qed

lemma wf_synced: "wf_state synced"
  by (simp add: wf_state_def synced_def)

lemma off_gates:
  "\<not> calendar_enabled calendar_off_service" "task_enabled calendar_off_service"
  "as_config_enabled (asana (config calendar_off_service))"
  "calendar_enabled asana_off_service" "\<not> task_enabled asana_off_service"
  "ms_config_enabled (microsoft365 (config asana_off_service))"
  by (simp_all add: calendar_enabled_def task_enabled_def demo_defs adapter_defs settings_def
        defaultSyncSettings_def)

lemma synced_stored:
  "stored_ms365EventId (syncKey ctx_one) synced = Some ''evt-1''"
  "stored_asanaTaskId (syncKey ctx_one) synced = Some ''task-1''"
  by (simp_all add: stored_ms365EventId_def stored_asanaTaskId_def read_ms365EventId_def
        read_asanaTaskId_def synced_def syncKey_def ctx_one_def)

lemma initial_stored:
  "stored_ms365EventId k initial = None" "stored_asanaTaskId k initial = None"
  by (simp_all add: stored_ms365EventId_def stored_asanaTaskId_def read_ms365EventId_def
        read_asanaTaskId_def initial_def)

lemma ctx_one_contributors:
  "contributorList ctx_one = [''ann@example.com'']"
  "firstContributor ctx_one = Some ''ann@example.com''"
  by (simp_all add: contributorList_def firstContributor_def ctx_one_def)

lemma eventWindow_due:
  assumes "dueDate ctx = Some (Valid t)"
    and "- maxTime \<le> t - 30 * 60 * 1000" and "t + 30 * 60 * 1000 \<le> maxTime"
  shows "eventWindow ctx now = (Valid (t - 30 * 60 * 1000), Valid (t + 30 * 60 * 1000))"
  using assms by (simp add: eventWindow_def getTime_def new_Date_def abs_le_iff)

lemma eventWindow_default:
  assumes "dueDate ctx = None"
    and "- maxTime \<le> now + 24 * 60 * 60 * 1000"
    and "now + 24 * 60 * 60 * 1000 + 60 * 60 * 1000 \<le> maxTime"
  shows "eventWindow ctx now
           = (Valid (now + 24 * 60 * 60 * 1000), Valid (now + 24 * 60 * 60 * 1000 + 60 * 60 * 1000))"
  using assms by (simp add: eventWindow_def getTime_def new_Date_def abs_le_iff)

lemma window_event_Valid:
  assumes "window_event (Valid s) (Valid e) r" and "\<bar>s\<bar> \<le> maxTime" and "\<bar>e\<bar> \<le> maxTime"
  shows "\<exists>ev. event_of r = Some ev
           \<and> start_dateTime ev = isoString s \<and> start_timeZone ev = ''UTC''
           \<and> end_dateTime ev = isoString e \<and> end_timeZone ev = ''UTC''"
  using assms by (auto simp: window_event_def toISOString_Valid split: option.splits)

lemma asana_off_run_gates:
  "createCalendarEvents (settings asana_off_service)"
  "ms_isEnabled (ms365Service asana_off_service)"
  "\<not> as_isEnabled (asanaService asana_off_service)"
  "ms_client (ms365Service asana_off_service) \<noteq> None"
  "ms_config_enabled (ms_config (ms365Service asana_off_service))"
  "ms_config_enabled (microsoft365 (config asana_off_service))"
  "graph world_ok = (\<lambda>h r. Inr (Some ''evt-1''))"
  by (simp_all add: demo_defs adapter_defs settings_def defaultSyncSettings_def)

lemmas asana_off_run_defs = new_requests_def new_calls_def syncContext_def
  syncToMicrosoft365_def syncToMicrosoft365_body_def createCalendarEvent_def getOrNew_def
  Let_def split_def read_ms365EventId_def truthy_def initial_def asana_off_run_gates
  toISOString_Valid getTime_def new_Date_def maxTime_def syncKey_def

lemma asana_off_requests:
  "new_requests initial (syncContext asana_off_service world_ok 0 ctx_one initial)
     = [GraphPost ''/users/ann@example.com/calendar/events''
          \<lparr>subject = eventSubject ctx_one, body_contentType = ''HTML'',
           body_content = eventBody ctx_one,
           start_dateTime = ''2025-01-10T11:30:00.000Z'', start_timeZone = ''UTC'',
           end_dateTime = ''2025-01-10T12:30:00.000Z'', end_timeZone = ''UTC'',
           isReminderOn = Some True, reminderMinutesBeforeStart = Some 15\<rparr>]"
proof -
  have c: "contributors ctx_one = Some [''ann@example.com'']"
    "dueDate ctx_one = Some (Valid 1736510400000)"
    "contentItemId ctx_one = ''item-1''" "languageId ctx_one = ''en''"
    by (simp_all add: ctx_one_def)
  show ?thesis
    by (simp add: asana_off_run_defs c iso_example)
qed

lemma asana_off_calls:
  "new_calls initial (syncContext asana_off_service world_ok 0 ctx_one initial)
     = [(CreateCalendarEvent ''ann@example.com'' ctx_one (Valid 1736508600000)
           (Valid 1736512200000), RemoteId (Some ''evt-1''))]"
proof -
  have c: "contributors ctx_one = Some [''ann@example.com'']"
    "dueDate ctx_one = Some (Valid 1736510400000)"
    "contentItemId ctx_one = ''item-1''" "languageId ctx_one = ''en''"
    by (simp_all add: ctx_one_def)
  show ?thesis
    by (simp add: asana_off_run_defs c)
qed

lemma far_requests:
  "new_requests initial (syncContext asana_off_service world_ok 0 ctx_far initial) = []"
  "new_calls initial (syncContext asana_off_service world_ok 0 ctx_far initial)
     = [(CreateCalendarEvent ''ann@example.com'' ctx_far (Valid 8639999998200000) Invalid,
         RemoteId None)]"
proof -
  have c: "contributors ctx_far = Some [''ann@example.com'']"
    "dueDate ctx_far = Some (Valid 8640000000000000)"
    "contentItemId ctx_far = ''item-1''" "languageId ctx_far = ''en''"
    by (simp_all add: ctx_far_def ctx_one_def)
  have i: "toISOString Invalid = Inl RangeError"
    by (simp add: toISOString_def getTime_def)
  show "new_requests initial (syncContext asana_off_service world_ok 0 ctx_far initial) = []"
    by (simp add: asana_off_run_defs c i)
  show "new_calls initial (syncContext asana_off_service world_ok 0 ctx_far initial)
     = [(CreateCalendarEvent ''ann@example.com'' ctx_far (Valid 8639999998200000) Invalid,
         RemoteId None)]"
    by (simp add: asana_off_run_defs c i)
qed

section \<open>The claims\<close>

text \<open>
  Claim C1 says that after a first reconciliation whose create calls return ids, the map
  holds those ids and the next reconciliation for the key updates. The code does not do
  that when the key has no entry at the start: \<^verbatim>\<open>syncToMicrosoft365\<close> and \<^verbatim>\<open>syncToAsana\<close>
  store the ids in a new record, and the last statement of \<^verbatim>\<open>syncContext\<close> replaces
  that record by one built from \<^verbatim>\<open>existingSync\<close>, which is still undefined. Run from
  the empty map with both adapters enabled and both creates returning an id: the entry
  ends with both ids undefined, and the second reconciliation calls
  \<^verbatim>\<open>createCalendarEvent\<close> and \<^verbatim>\<open>createTask\<close> again.
\<close>

theorem first_sync_loses_created_ids:
  "syncMap initial (syncKey ctx_one) = None
   \<and> calendar_enabled demo_service \<and> task_enabled demo_service
   \<and> new_calls initial (syncContext demo_service world_ok 0 ctx_one initial)
       = [(CreateCalendarEvent ''ann@example.com'' ctx_one (Valid 1736508600000) (Valid 1736512200000),
           RemoteId (Some ''evt-1'')),
          (CreateTask ctx_one (Some ''ann@example.com''), RemoteId (Some ''task-1''))]
   \<and> getSyncStatus ''item-1'' ''en'' (syncContext demo_service world_ok 0 ctx_one initial)
       = Some \<lparr>ms365EventId = None, asanaTaskId = None\<rparr>
   \<and> map fst (new_calls (syncContext demo_service world_ok 0 ctx_one initial)
         (syncContext demo_service world_ok 0 ctx_one
            (syncContext demo_service world_ok 0 ctx_one initial)))
       = [CreateCalendarEvent ''ann@example.com'' ctx_one (Valid 1736508600000) (Valid 1736512200000),
          CreateTask ctx_one (Some ''ann@example.com'')]"
proof -
  let ?st1 = "syncContext demo_service world_ok 0 ctx_one initial"
  have absent: "syncMap initial (syncKey ctx_one) = None"
    by (simp add: initial_def)
  have first: "new_calls initial ?st1
       = [(CreateCalendarEvent ''ann@example.com'' ctx_one (Valid 1736508600000) (Valid 1736512200000),
           RemoteId (Some ''evt-1'')),
          (CreateTask ctx_one (Some ''ann@example.com''), RemoteId (Some ''task-1''))]"
    by (simp add: run_defs)
  have status: "getSyncStatus ''item-1'' ''en'' ?st1
                  = Some \<lparr>ms365EventId = None, asanaTaskId = None\<rparr>"
    by (simp add: run_defs)
  have stored: "stored_ms365EventId (syncKey ctx_one) ?st1 = None"
               "stored_asanaTaskId (syncKey ctx_one) ?st1 = None"
    using stored_absent [OF absent] by simp_all
  have "map fst (new_calls ?st1 (syncContext demo_service world_ok 0 ctx_one ?st1))
          = calendar_calls demo_service ctx_one 0 None @ task_calls demo_service ctx_one None"
    by (simp add: syncContext_new_calls demo_enabled stored)
  also have "\<dots> = [CreateCalendarEvent ''ann@example.com'' ctx_one (Valid 1736508600000) (Valid 1736512200000),
          CreateTask ctx_one (Some ''ann@example.com'')]"
    by (simp add: calendar_calls_def task_calls_def calendar_call_def task_call_def demo_gates
          eventWindow_def contributorList_def firstContributor_def truthy_def ctx_one_def
          getTime_def new_Date_def maxTime_def)
  finally show ?thesis
    using absent first status demo_enabled by simp
qed

text \<open>
  Claim C2 says that the first reconciliation for a key issues exactly one create call
  for each enabled adapter, however many contributors there are. Counterexample: with
  two contributors and the calendar adapter enabled, the number of calendar create calls
  is not one (it is two, one for each contributor).
\<close>

theorem first_sync_creates_per_contributor_counterexample:
  "syncMap initial (syncKey ctx_two) = None \<and> calendar_enabled demo_service
   \<and> count_calls is_calendar_create
        (new_calls initial (syncContext demo_service world_ok 0 ctx_two initial)) \<noteq> 1"
proof -
  have "count_calls is_calendar_create
          (new_calls initial (syncContext demo_service world_ok 0 ctx_two initial)) = 2"
    by (simp add: syncContext_counts demo_enabled calendar_calls_filter task_calls_filter
          length_calendar_calls demo_gates stored_ms365EventId_def read_ms365EventId_def
          truthy_def initial_def contributorList_def ctx_two_def ctx_one_def)
  then show ?thesis
    by (simp add: demo_enabled initial_def)
qed

text \<open>
  Claim C2, amended: for a key absent from the map, one reconciliation issues exactly one
  create call to the task adapter when it is enabled, whatever the number of
  contributors, and one create call for each contributor to the calendar adapter when it
  is enabled (none when there is no contributor); it issues no update call.
\<close>

theorem first_sync_creates:
  assumes "syncMap st (syncKey ctx) = None" and "wired svc"
  shows "(task_enabled svc \<longrightarrow>
            count_calls is_task_create (new_calls st (syncContext svc w now ctx st)) = 1
          \<and> count_calls is_task_update (new_calls st (syncContext svc w now ctx st)) = 0)
       \<and> (calendar_enabled svc \<longrightarrow>
            count_calls is_calendar_create (new_calls st (syncContext svc w now ctx st))
              = length (contributorList ctx)
          \<and> count_calls is_calendar_update (new_calls st (syncContext svc w now ctx st)) = 0)"
proof -
  have "stored_ms365EventId (syncKey ctx) st = None" "stored_asanaTaskId (syncKey ctx) st = None"
    using assms(1)
    by (simp_all add: stored_ms365EventId_def stored_asanaTaskId_def read_ms365EventId_def
          read_asanaTaskId_def)
  then show ?thesis
    using wired_task [OF assms(2)] wired_calendar [OF assms(2)]
    by (simp add: syncContext_counts calendar_calls_filter task_calls_filter
          length_calendar_calls length_task_calls truthy_def)
qed

text \<open>
  Claim C2, amended, on the empty map with two contributors and both adapters enabled:
  one task create, two calendar creates.
\<close>

theorem first_sync_creates_witness:
  "syncMap initial (syncKey ctx_two) = None \<and> wired demo_service
   \<and> task_enabled demo_service \<and> calendar_enabled demo_service
   \<and> count_calls is_task_create
        (new_calls initial (syncContext demo_service world_ok 0 ctx_two initial)) = 1
   \<and> count_calls is_calendar_create
        (new_calls initial (syncContext demo_service world_ok 0 ctx_two initial)) = 2"
proof -
  have a: "syncMap initial (syncKey ctx_two) = None"
    by (simp add: initial_def)
  have "length (contributorList ctx_two) = 2"
    by (simp add: contributorList_def ctx_two_def ctx_one_def)
  with first_sync_creates [OF a demo_enabled(3), of world_ok 0] a demo_enabled
  show ?thesis by simp
qed

text \<open>
  Claim C3 says that N reconciliations of a key whose record holds the adapter's id issue
  exactly N update calls for each enabled adapter. Counterexample: with two contributors,
  one reconciliation issues a number of calendar update calls that is not one (it is two).
\<close>

theorem repeated_sync_updates_per_contributor_counterexample:
  "truthy (stored_ms365EventId (syncKey ctx_two) synced) \<and> calendar_enabled demo_service
   \<and> count_calls is_calendar_update
        (new_calls synced (syncContext_seq demo_service world_ok ctx_two [0] synced))
      \<noteq> length [0::int]"
proof -
  have "count_calls is_calendar_update
          (new_calls synced (syncContext demo_service world_ok 0 ctx_two synced)) = 2"
    by (simp add: syncContext_counts demo_enabled calendar_calls_filter task_calls_filter
          length_calendar_calls demo_gates stored_ms365EventId_def read_ms365EventId_def
          truthy_def synced_def contributorList_def ctx_two_def ctx_one_def syncKey_def)
  then show ?thesis
    by (simp add: demo_enabled syncContext_seq_def stored_ms365EventId_def
          read_ms365EventId_def truthy_def synced_def ctx_two_def ctx_one_def syncKey_def)
qed

text \<open>
  Claim C3, amended: when the record of the key holds a truthy id for an enabled adapter,
  N reconciliations with the same context (one for each clock reading in \<open>nows\<close>)
  issue exactly N update calls and no create call to the task adapter, and exactly N times
  the number of contributors update calls and no create call to the calendar adapter.
\<close>

theorem repeated_sync_updates:
  assumes "wired svc"
  shows "(task_enabled svc \<and> truthy (stored_asanaTaskId (syncKey ctx) st) \<longrightarrow>
            count_calls is_task_update (new_calls st (syncContext_seq svc w ctx nows st))
              = length nows
          \<and> count_calls is_task_create (new_calls st (syncContext_seq svc w ctx nows st)) = 0)
       \<and> (calendar_enabled svc \<and> truthy (stored_ms365EventId (syncKey ctx) st) \<longrightarrow>
            count_calls is_calendar_update (new_calls st (syncContext_seq svc w ctx nows st))
              = length nows * length (contributorList ctx)
          \<and> count_calls is_calendar_create (new_calls st (syncContext_seq svc w ctx nows st)) = 0)"
  using seq_task_updates [OF _ assms, of ctx st w nows]
    seq_calendar_updates [OF _ assms, of ctx st w nows]
  by blast

text \<open>
  Claim C3, amended, on a map that holds both ids, with two contributors and three
  reconciliations: three task updates, six calendar updates, no create.
\<close>

theorem repeated_sync_updates_witness:
  "wired demo_service
   \<and> task_enabled demo_service \<and> truthy (stored_asanaTaskId (syncKey ctx_two) synced)
   \<and> calendar_enabled demo_service \<and> truthy (stored_ms365EventId (syncKey ctx_two) synced)
   \<and> count_calls is_task_update
        (new_calls synced (syncContext_seq demo_service world_ok ctx_two [0, 5, 9] synced)) = 3
   \<and> count_calls is_task_create
        (new_calls synced (syncContext_seq demo_service world_ok ctx_two [0, 5, 9] synced)) = 0
   \<and> count_calls is_calendar_update
        (new_calls synced (syncContext_seq demo_service world_ok ctx_two [0, 5, 9] synced)) = 6
   \<and> count_calls is_calendar_create
        (new_calls synced (syncContext_seq demo_service world_ok ctx_two [0, 5, 9] synced)) = 0"
proof -
  have t: "truthy (stored_asanaTaskId (syncKey ctx_two) synced)"
          "truthy (stored_ms365EventId (syncKey ctx_two) synced)"
    by (simp_all add: stored_asanaTaskId_def read_asanaTaskId_def stored_ms365EventId_def
          read_ms365EventId_def truthy_def synced_def ctx_two_def ctx_one_def syncKey_def)
  have "length (contributorList ctx_two) = 2"
    by (simp add: contributorList_def ctx_two_def ctx_one_def)
  with repeated_sync_updates [OF demo_enabled(3), of ctx_two synced world_ok "[0, 5, 9]"]
    t demo_enabled
  show ?thesis by simp
qed

text \<open>
  Claim C4: when the calendar adapter is gated off (its \<^verbatim>\<open>isEnabled()\<close> is false or the
  \<^verbatim>\<open>createCalendarEvents\<close> toggle is off), a reconciliation makes no calendar call, sends
  no Graph request, and leaves the calendar id the map holds, for every key, as it was;
  and the same for the task adapter (\<^verbatim>\<open>isEnabled()\<close> false or \<^verbatim>\<open>createTasks\<close> off), whatever
  the context contains. The state is one whose map holds allocated addresses only, which
  the initial state is and every reconciliation preserves (\<open>wf_initial\<close>,
  \<open>syncContext_wf\<close>).
\<close>

theorem disabled_adapter_is_inert:
  assumes "wf_state st"
  shows "(\<not> calendar_enabled svc \<longrightarrow>
            count_calls is_calendar_call (new_calls st (syncContext svc w now ctx st)) = 0
          \<and> (\<forall>r\<in>set (new_requests st (syncContext svc w now ctx st)). \<not> is_graph_request r)
          \<and> (\<forall>k. stored_ms365EventId k (syncContext svc w now ctx st)
                   = stored_ms365EventId k st))
       \<and> (\<not> task_enabled svc \<longrightarrow>
            count_calls is_task_call (new_calls st (syncContext svc w now ctx st)) = 0
          \<and> (\<forall>r\<in>set (new_requests st (syncContext svc w now ctx st)). is_graph_request r)
          \<and> (\<forall>k. stored_asanaTaskId k (syncContext svc w now ctx st)
                   = stored_asanaTaskId k st))"
proof -
  obtain l1 l2 where l: "new_requests st (syncContext svc w now ctx st) = l1 @ l2"
     "\<forall>r\<in>set l1. is_graph_request r
            \<and> window_event (fst (eventWindow ctx now)) (snd (eventWindow ctx now)) r"
     "\<not> calendar_enabled svc \<longrightarrow> l1 = []"
     "\<forall>r\<in>set l2. \<not> is_graph_request r"
     "\<not> task_enabled svc \<longrightarrow> l2 = []"
    using syncContext_requests [of st svc w now ctx] by blast
  have "\<forall>r\<in>set (new_requests st (syncContext svc w now ctx st)). \<not> is_graph_request r"
    if "\<not> calendar_enabled svc"
    using that l by simp
  moreover have "\<forall>r\<in>set (new_requests st (syncContext svc w now ctx st)). is_graph_request r"
    if "\<not> task_enabled svc"
    using that l by simp
  ultimately show ?thesis
    using assms
    by (simp add: syncContext_counts calendar_calls_filter task_calls_filter
          calendar_off_stored task_off_stored)
qed

text \<open>
  Claim C4 on a map that holds both ids: with the calendar toggle off the task update is
  made, no calendar call is, and the calendar id stays; with Asana disabled the calendar
  update is made, no task call is, and the task id stays.
\<close>

theorem disabled_adapter_is_inert_witness:
  "wf_state synced
   \<and> \<not> calendar_enabled calendar_off_service
   \<and> count_calls is_calendar_call
        (new_calls synced (syncContext calendar_off_service world_ok 0 ctx_one synced)) = 0
   \<and> stored_ms365EventId (syncKey ctx_one)
        (syncContext calendar_off_service world_ok 0 ctx_one synced) = Some ''evt-1''
   \<and> count_calls is_task_call
        (new_calls synced (syncContext calendar_off_service world_ok 0 ctx_one synced)) = 1
   \<and> \<not> task_enabled asana_off_service
   \<and> count_calls is_task_call
        (new_calls synced (syncContext asana_off_service world_ok 0 ctx_one synced)) = 0
   \<and> stored_asanaTaskId (syncKey ctx_one)
        (syncContext asana_off_service world_ok 0 ctx_one synced) = Some ''task-1''
   \<and> count_calls is_calendar_call
        (new_calls synced (syncContext asana_off_service world_ok 0 ctx_one synced)) = 1"
proof -
  have 1: "count_calls is_task_call
        (new_calls synced (syncContext calendar_off_service world_ok 0 ctx_one synced)) = 1"
    by (simp add: syncContext_counts off_gates task_calls_filter length_task_calls)
  have 2: "count_calls is_calendar_call
        (new_calls synced (syncContext asana_off_service world_ok 0 ctx_one synced)) = 1"
    by (simp add: syncContext_counts off_gates calendar_calls_filter length_calendar_calls
          ctx_one_contributors)
  from disabled_adapter_is_inert [OF wf_synced, of calendar_off_service world_ok 0 ctx_one]
    disabled_adapter_is_inert [OF wf_synced, of asana_off_service world_ok 0 ctx_one]
    off_gates wf_synced synced_stored 1 2
  show ?thesis by simp
qed

text \<open>
  Claim C5 says that when an adapter's create call returns nothing the id of that adapter
  stays unset and the next reconciliation creates again. Counterexample: the key has an
  entry with no id and the context has two contributors; the calendar create of the
  first returns an id and the create of the second returns nothing. The id of the first
  is stored, and the next reconciliation makes two calendar updates on it and no create:
  the create that failed is not made again.
\<close>

theorem failed_create_is_retried_counterexample:
  "calendar_enabled demo_service
   \<and> stored_ms365EventId (syncKey ctx_two) pending = None
   \<and> new_calls pending (syncContext demo_service world_mixed 0 ctx_two pending)
       = [(CreateCalendarEvent ''ann@example.com'' ctx_two (Valid 1736508600000)
             (Valid 1736512200000), RemoteId (Some ''evt-ann'')),
          (CreateCalendarEvent ''bob@example.com'' ctx_two (Valid 1736508600000)
             (Valid 1736512200000), RemoteId None),
          (CreateTask ctx_two (Some ''ann@example.com''), RemoteId (Some ''task-1''))]
   \<and> stored_ms365EventId (syncKey ctx_two)
        (syncContext demo_service world_mixed 0 ctx_two pending) = Some ''evt-ann''
   \<and> count_calls is_calendar_create
        (new_calls (syncContext demo_service world_mixed 0 ctx_two pending)
           (syncContext demo_service world_mixed 7 ctx_two
              (syncContext demo_service world_mixed 0 ctx_two pending))) = 0
   \<and> count_calls is_calendar_update
        (new_calls (syncContext demo_service world_mixed 0 ctx_two pending)
           (syncContext demo_service world_mixed 7 ctx_two
              (syncContext demo_service world_mixed 0 ctx_two pending))) = 2"
proof -
  let ?st' = "syncContext demo_service world_mixed 0 ctx_two pending"
  have p: "stored_ms365EventId (syncKey ctx_two) pending = None"
    by (simp add: stored_ms365EventId_def read_ms365EventId_def pending_def emptyRecord_def
          syncKey_def ctx_two_def ctx_one_def)
  have c: "new_calls pending ?st'
       = [(CreateCalendarEvent ''ann@example.com'' ctx_two (Valid 1736508600000)
             (Valid 1736512200000), RemoteId (Some ''evt-ann'')),
          (CreateCalendarEvent ''bob@example.com'' ctx_two (Valid 1736508600000)
             (Valid 1736512200000), RemoteId None),
          (CreateTask ctx_two (Some ''ann@example.com''), RemoteId (Some ''task-1''))]"
    by (simp add: run2_defs)
  have k: "stored_ms365EventId (syncKey ctx_two) ?st' = Some ''evt-ann''"
    by (simp add: stored_ms365EventId_def run2_defs)
  have n: "length (contributorList ctx_two) = 2"
    by (simp add: contributorList_def ctx_two_def ctx_one_def)
  have u: "count_calls is_calendar_create
             (new_calls ?st' (syncContext demo_service world_mixed 7 ctx_two ?st')) = 0"
          "count_calls is_calendar_update
             (new_calls ?st' (syncContext demo_service world_mixed 7 ctx_two ?st')) = 2"
    by (simp_all add: syncContext_counts k demo_enabled demo_gates calendar_calls_filter
          task_calls_filter length_calendar_calls truthy_def n)
  from p c k u demo_enabled show ?thesis by simp
qed

text \<open>
  Claim C5, amended: when the map holds no id of an enabled adapter for the key and every
  create call that adapter makes in a reconciliation returns no usable id (for the
  calendar adapter, the create of every contributor), the id is still unset after the
  reconciliation, and the next reconciliation for the same key (whatever the remote
  systems answer then) makes no update call to that adapter and creates again: one
  create for the task adapter, one for each contributor of the new context for the
  calendar adapter.
\<close>

theorem failed_create_is_retried:
  assumes "wired svc"
  shows "(calendar_enabled svc \<and> stored_ms365EventId (syncKey ctx) st = None
          \<and> (\<forall>c\<in>set (new_calls st (syncContext svc w now ctx st)).
                 is_calendar_create (fst c) \<longrightarrow> \<not> returned_id (snd c))
          \<longrightarrow> stored_ms365EventId (syncKey ctx) (syncContext svc w now ctx st) = None
            \<and> (\<forall>w' now' ctx'. syncKey ctx' = syncKey ctx \<longrightarrow>
                  count_calls is_calendar_update
                    (new_calls (syncContext svc w now ctx st)
                       (syncContext svc w' now' ctx' (syncContext svc w now ctx st))) = 0
                \<and> count_calls is_calendar_create
                    (new_calls (syncContext svc w now ctx st)
                       (syncContext svc w' now' ctx' (syncContext svc w now ctx st)))
                    = length (contributorList ctx')))
       \<and> (task_enabled svc \<and> stored_asanaTaskId (syncKey ctx) st = None
          \<and> (\<forall>c\<in>set (new_calls st (syncContext svc w now ctx st)).
                 is_task_create (fst c) \<longrightarrow> \<not> returned_id (snd c))
          \<longrightarrow> stored_asanaTaskId (syncKey ctx) (syncContext svc w now ctx st) = None
            \<and> (\<forall>w' now' ctx'. syncKey ctx' = syncKey ctx \<longrightarrow>
                  count_calls is_task_update
                    (new_calls (syncContext svc w now ctx st)
                       (syncContext svc w' now' ctx' (syncContext svc w now ctx st))) = 0
                \<and> count_calls is_task_create
                    (new_calls (syncContext svc w now ctx st)
                       (syncContext svc w' now' ctx' (syncContext svc w now ctx st))) = 1))"
proof (intro conjI impI allI)
  let ?st' = "syncContext svc w now ctx st"
  {
    assume a: "calendar_enabled svc \<and> stored_ms365EventId (syncKey ctx) st = None
          \<and> (\<forall>c\<in>set (new_calls st ?st'). is_calendar_create (fst c) \<longrightarrow> \<not> returned_id (snd c))"
    then have "same_store st (after_calendar svc w now ctx st)"
      by (intro calendar_unanswered) (simp_all add: truthy_def)
    with a show k: "stored_ms365EventId (syncKey ctx) ?st' = None"
      by (simp add: stored_ms_unanswered)
    fix w' now' ctx'
    assume "syncKey ctx' = syncKey ctx"
    with k have n: "stored_ms365EventId (syncKey ctx') ?st' = None" by simp
    from a assms have en: "ms_config_enabled (microsoft365 (config svc))"
      by (simp add: wired_calendar)
    show "count_calls is_calendar_update (new_calls ?st' (syncContext svc w' now' ctx' ?st')) = 0"
      by (simp add: syncContext_counts n calendar_calls_filter task_calls_filter truthy_def)
    show "count_calls is_calendar_create (new_calls ?st' (syncContext svc w' now' ctx' ?st'))
            = length (contributorList ctx')"
      using a en
      by (simp add: syncContext_counts n calendar_calls_filter task_calls_filter truthy_def
            length_calendar_calls)
  }
  {
    assume a: "task_enabled svc \<and> stored_asanaTaskId (syncKey ctx) st = None
          \<and> (\<forall>c\<in>set (new_calls st ?st'). is_task_create (fst c) \<longrightarrow> \<not> returned_id (snd c))"
    then have "same_store (after_calendar svc w now ctx st) (after_tasks svc w now ctx st)"
      by (intro task_unanswered) (simp_all add: truthy_def)
    with a show k: "stored_asanaTaskId (syncKey ctx) ?st' = None"
      by (simp add: stored_asana_unanswered)
    fix w' now' ctx'
    assume "syncKey ctx' = syncKey ctx"
    with k have n: "stored_asanaTaskId (syncKey ctx') ?st' = None" by simp
    from a assms have en: "as_config_enabled (asana (config svc))"
      by (simp add: wired_task)
    show "count_calls is_task_update (new_calls ?st' (syncContext svc w' now' ctx' ?st')) = 0"
      by (simp add: syncContext_counts n calendar_calls_filter task_calls_filter truthy_def)
    show "count_calls is_task_create (new_calls ?st' (syncContext svc w' now' ctx' ?st')) = 1"
      using a en
      by (simp add: syncContext_counts n calendar_calls_filter task_calls_filter truthy_def
            length_task_calls)
  }
qed

text \<open>
  Claim C5, amended, from a map whose entry for the key holds no id, with both remote
  systems failing: both creates return nothing, both ids stay unset (an id a create had
  returned would have been stored in that entry), and the next reconciliation creates
  again.
\<close>

theorem failed_create_is_retried_witness:
  "wired demo_service \<and> calendar_enabled demo_service \<and> task_enabled demo_service
   \<and> syncMap pending (syncKey ctx_one) = Some 0
   \<and> stored_ms365EventId (syncKey ctx_one) pending = None
   \<and> stored_asanaTaskId (syncKey ctx_one) pending = None
   \<and> new_calls pending (syncContext demo_service world_down 0 ctx_one pending)
       = [(CreateCalendarEvent ''ann@example.com'' ctx_one (Valid 1736508600000)
             (Valid 1736512200000), RemoteId None),
          (CreateTask ctx_one (Some ''ann@example.com''), RemoteId None)]
   \<and> stored_ms365EventId (syncKey ctx_one)
        (syncContext demo_service world_down 0 ctx_one pending) = None
   \<and> stored_asanaTaskId (syncKey ctx_one)
        (syncContext demo_service world_down 0 ctx_one pending) = None
   \<and> count_calls is_calendar_create
        (new_calls (syncContext demo_service world_down 0 ctx_one pending)
           (syncContext demo_service world_ok 7 ctx_one
              (syncContext demo_service world_down 0 ctx_one pending))) = 1
   \<and> count_calls is_task_create
        (new_calls (syncContext demo_service world_down 0 ctx_one pending)
           (syncContext demo_service world_ok 7 ctx_one
              (syncContext demo_service world_down 0 ctx_one pending))) = 1
   \<and> count_calls is_calendar_update
        (new_calls (syncContext demo_service world_down 0 ctx_one pending)
           (syncContext demo_service world_ok 7 ctx_one
              (syncContext demo_service world_down 0 ctx_one pending))) = 0
   \<and> count_calls is_task_update
        (new_calls (syncContext demo_service world_down 0 ctx_one pending)
           (syncContext demo_service world_ok 7 ctx_one
              (syncContext demo_service world_down 0 ctx_one pending))) = 0"
proof -
  let ?st' = "syncContext demo_service world_down 0 ctx_one pending"
  have b: "syncMap pending (syncKey ctx_one) = Some 0"
    by (simp add: pending_def syncKey_def ctx_one_def)
  have p: "stored_ms365EventId (syncKey ctx_one) pending = None"
          "stored_asanaTaskId (syncKey ctx_one) pending = None"
    by (simp_all add: stored_ms365EventId_def read_ms365EventId_def stored_asanaTaskId_def
          read_asanaTaskId_def pending_def emptyRecord_def syncKey_def ctx_one_def)
  have c: "new_calls pending ?st'
       = [(CreateCalendarEvent ''ann@example.com'' ctx_one (Valid 1736508600000)
             (Valid 1736512200000), RemoteId None),
          (CreateTask ctx_one (Some ''ann@example.com''), RemoteId None)]"
    by (simp add: run2_defs)
  have h: "\<forall>c\<in>set (new_calls pending ?st'). is_calendar_create (fst c) \<longrightarrow> \<not> returned_id (snd c)"
          "\<forall>c\<in>set (new_calls pending ?st'). is_task_create (fst c) \<longrightarrow> \<not> returned_id (snd c)"
    by (simp_all add: c truthy_def)
  from failed_create_is_retried [OF demo_enabled(3), of ctx_one pending world_down 0]
    h demo_enabled p c b
  show ?thesis by (simp add: ctx_one_contributors)
qed

text \<open>
  Claim C6 says that when the calendar create fails the task adapter is still called and
  the map then holds the task id and no calendar id. The task adapter is called, but from
  the empty map the id it returns is lost, for the reason given at C1: the final write of
  \<^verbatim>\<open>syncContext\<close> replaces the record that holds it by a copy of the undefined
  \<^verbatim>\<open>existingSync\<close>.
\<close>

theorem calendar_failure_loses_task_id:
  "syncMap initial (syncKey ctx_one) = None
   \<and> calendar_enabled demo_service \<and> task_enabled demo_service
   \<and> new_calls initial (syncContext demo_service world_calendar_down 0 ctx_one initial)
       = [(CreateCalendarEvent ''ann@example.com'' ctx_one (Valid 1736508600000) (Valid 1736512200000),
           RemoteId None),
          (CreateTask ctx_one (Some ''ann@example.com''), RemoteId (Some ''task-1''))]
   \<and> getSyncStatus ''item-1'' ''en''
         (syncContext demo_service world_calendar_down 0 ctx_one initial)
       = Some \<lparr>ms365EventId = None, asanaTaskId = None\<rparr>"
proof -
  let ?st1 = "syncContext demo_service world_calendar_down 0 ctx_one initial"
  have "new_calls initial ?st1
       = [(CreateCalendarEvent ''ann@example.com'' ctx_one (Valid 1736508600000) (Valid 1736512200000),
           RemoteId None),
          (CreateTask ctx_one (Some ''ann@example.com''), RemoteId (Some ''task-1''))]"
    by (simp add: run_defs)
  moreover have "getSyncStatus ''item-1'' ''en'' ?st1
                   = Some \<lparr>ms365EventId = None, asanaTaskId = None\<rparr>"
    by (simp add: run_defs)
  moreover have "syncMap initial (syncKey ctx_one) = None"
    by (simp add: initial_def)
  ultimately show ?thesis using demo_enabled by simp
qed

text \<open>
  Claim C7: \<^verbatim>\<open>updateCalendarEvent\<close> and \<^verbatim>\<open>updateTask\<close> return true exactly when the update
  request (the Graph patch of the event, the \<open>PUT\<close> of the task) was sent and the remote
  system accepted it, and false otherwise; no request they send creates a record. When
  the map holds a truthy id of an enabled adapter, a reconciliation keeps that id whether
  the update succeeded or failed, makes no create call and sends no creating request for
  that adapter, and the next reconciliation for the key again makes only update calls, on
  the same id.
\<close>

theorem update_never_creates:
  "(\<exists>l. snd (updateCalendarEvent ms w u i ctx s e sn) = sn @ l
      \<and> (\<forall>r\<in>set l. \<not> is_create_request r)
      \<and> (fst (updateCalendarEvent ms w u i ctx s e sn) \<longleftrightarrow>
           (\<exists>ev. l = [GraphPatch (''/users/'' @ u @ ''/calendar/events/'' @ i) ev]
              \<and> answered w sn (GraphPatch (''/users/'' @ u @ ''/calendar/events/'' @ i) ev))))
   \<and> (\<exists>l. snd (updateTask asn w i ctx a sn) = sn @ l
      \<and> (\<forall>r\<in>set l. \<not> is_create_request r)
      \<and> (fst (updateTask asn w i ctx a sn) \<longleftrightarrow>
           (\<exists>gets body. l = gets @ [AsanaFetch ''PUT'' (apiBaseUrl @ ''/tasks/'' @ i)
                                      (accessToken asn) (Some body)]
              \<and> answered w (sn @ gets)
                   (AsanaFetch ''PUT'' (apiBaseUrl @ ''/tasks/'' @ i) (accessToken asn)
                      (Some body)))))
   \<and> (wired svc \<and> calendar_enabled svc \<and> truthy (stored_ms365EventId (syncKey ctx) st) \<longrightarrow>
        stored_ms365EventId (syncKey ctx) (syncContext svc w now ctx st)
          = stored_ms365EventId (syncKey ctx) st
      \<and> count_calls is_calendar_create (new_calls st (syncContext svc w now ctx st)) = 0
      \<and> (\<forall>r\<in>set (new_requests st (syncContext svc w now ctx st)).
            is_graph_request r \<longrightarrow> \<not> is_create_request r)
      \<and> (\<forall>w' now' ctx'. syncKey ctx' = syncKey ctx \<longrightarrow>
            count_calls is_calendar_create
              (new_calls (syncContext svc w now ctx st)
                 (syncContext svc w' now' ctx' (syncContext svc w now ctx st))) = 0
          \<and> count_calls is_calendar_update
              (new_calls (syncContext svc w now ctx st)
                 (syncContext svc w' now' ctx' (syncContext svc w now ctx st)))
              = length (contributorList ctx')
          \<and> (\<forall>c\<in>set (new_calls (syncContext svc w now ctx st)
                         (syncContext svc w' now' ctx' (syncContext svc w now ctx st))).
                is_calendar_call (fst c) \<longrightarrow>
                updated_id (fst c) = stored_ms365EventId (syncKey ctx) st)))
   \<and> (wired svc \<and> task_enabled svc \<and> truthy (stored_asanaTaskId (syncKey ctx) st) \<longrightarrow>
        stored_asanaTaskId (syncKey ctx) (syncContext svc w now ctx st)
          = stored_asanaTaskId (syncKey ctx) st
      \<and> count_calls is_task_create (new_calls st (syncContext svc w now ctx st)) = 0
      \<and> (\<forall>r\<in>set (new_requests st (syncContext svc w now ctx st)).
            \<not> is_graph_request r \<longrightarrow> \<not> is_create_request r)
      \<and> (\<forall>w' now' ctx'. syncKey ctx' = syncKey ctx \<longrightarrow>
            count_calls is_task_create
              (new_calls (syncContext svc w now ctx st)
                 (syncContext svc w' now' ctx' (syncContext svc w now ctx st))) = 0
          \<and> count_calls is_task_update
              (new_calls (syncContext svc w now ctx st)
                 (syncContext svc w' now' ctx' (syncContext svc w now ctx st))) = 1
          \<and> (\<forall>c\<in>set (new_calls (syncContext svc w now ctx st)
                         (syncContext svc w' now' ctx' (syncContext svc w now ctx st))).
                is_task_call (fst c) \<longrightarrow>
                updated_id (fst c) = stored_asanaTaskId (syncKey ctx) st)))"
proof (intro conjI)
  let ?st' = "syncContext svc w now ctx st"
  show "\<exists>l. snd (updateCalendarEvent ms w u i ctx s e sn) = sn @ l
      \<and> (\<forall>r\<in>set l. \<not> is_create_request r)
      \<and> (fst (updateCalendarEvent ms w u i ctx s e sn) \<longleftrightarrow>
           (\<exists>ev. l = [GraphPatch (''/users/'' @ u @ ''/calendar/events/'' @ i) ev]
              \<and> answered w sn (GraphPatch (''/users/'' @ u @ ''/calendar/events/'' @ i) ev)))"
    by (rule updateCalendarEvent_effect)
  show "\<exists>l. snd (updateTask asn w i ctx a sn) = sn @ l
      \<and> (\<forall>r\<in>set l. \<not> is_create_request r)
      \<and> (fst (updateTask asn w i ctx a sn) \<longleftrightarrow>
           (\<exists>gets body. l = gets @ [AsanaFetch ''PUT'' (apiBaseUrl @ ''/tasks/'' @ i)
                                      (accessToken asn) (Some body)]
              \<and> answered w (sn @ gets)
                   (AsanaFetch ''PUT'' (apiBaseUrl @ ''/tasks/'' @ i) (accessToken asn)
                      (Some body))))"
    by (rule updateTask_effect)
  obtain l1 l2 where l: "new_requests st ?st' = l1 @ l2"
     "\<forall>r\<in>set l1. is_graph_request r
            \<and> window_event (fst (eventWindow ctx now)) (snd (eventWindow ctx now)) r"
     "truthy (stored_ms365EventId (syncKey ctx) st) \<longrightarrow> (\<forall>r\<in>set l1. \<not> is_create_request r)"
     "\<forall>r\<in>set l2. \<not> is_graph_request r"
     "truthy (stored_asanaTaskId (syncKey ctx) st) \<longrightarrow> (\<forall>r\<in>set l2. \<not> is_create_request r)"
    using syncContext_requests [of st svc w now ctx] by blast
  show "wired svc \<and> calendar_enabled svc \<and> truthy (stored_ms365EventId (syncKey ctx) st) \<longrightarrow>
        stored_ms365EventId (syncKey ctx) ?st' = stored_ms365EventId (syncKey ctx) st
      \<and> count_calls is_calendar_create (new_calls st ?st') = 0
      \<and> (\<forall>r\<in>set (new_requests st ?st'). is_graph_request r \<longrightarrow> \<not> is_create_request r)
      \<and> (\<forall>w' now' ctx'. syncKey ctx' = syncKey ctx \<longrightarrow>
            count_calls is_calendar_create (new_calls ?st' (syncContext svc w' now' ctx' ?st')) = 0
          \<and> count_calls is_calendar_update (new_calls ?st' (syncContext svc w' now' ctx' ?st'))
              = length (contributorList ctx')
          \<and> (\<forall>c\<in>set (new_calls ?st' (syncContext svc w' now' ctx' ?st')).
                is_calendar_call (fst c) \<longrightarrow>
                updated_id (fst c) = stored_ms365EventId (syncKey ctx) st))"
  proof (intro impI conjI allI ballI)
    assume a: "wired svc \<and> calendar_enabled svc \<and> truthy (stored_ms365EventId (syncKey ctx) st)"
    then have en: "ms_config_enabled (microsoft365 (config svc))"
      by (simp add: wired_calendar)
    from a show k: "stored_ms365EventId (syncKey ctx) ?st' = stored_ms365EventId (syncKey ctx) st"
      by (simp add: stored_ms_kept)
    from a show "count_calls is_calendar_create (new_calls st ?st') = 0"
      by (simp add: syncContext_counts calendar_calls_filter task_calls_filter)
    {
      fix r assume "r \<in> set (new_requests st ?st')" "is_graph_request r"
      with a l show "\<not> is_create_request r" by auto
    }
    fix w' now' ctx'
    assume same: "syncKey ctx' = syncKey ctx"
    with k a have t: "truthy (stored_ms365EventId (syncKey ctx') ?st')"
      and v: "stored_ms365EventId (syncKey ctx') ?st' = stored_ms365EventId (syncKey ctx) st"
      by simp_all
    show "count_calls is_calendar_create (new_calls ?st' (syncContext svc w' now' ctx' ?st')) = 0"
      using t by (simp add: syncContext_counts calendar_calls_filter task_calls_filter)
    show "count_calls is_calendar_update (new_calls ?st' (syncContext svc w' now' ctx' ?st'))
            = length (contributorList ctx')"
      using t a en
      by (simp add: syncContext_counts calendar_calls_filter task_calls_filter
            length_calendar_calls)
    fix c
    assume "c \<in> set (new_calls ?st' (syncContext svc w' now' ctx' ?st'))"
      "is_calendar_call (fst c)"
    then show "updated_id (fst c) = stored_ms365EventId (syncKey ctx) st"
      using new_calls_member [of c ?st' svc w' now' ctx'] t v
        calendar_calls_member [of "fst c" svc ctx' now' "stored_ms365EventId (syncKey ctx') ?st'"]
        task_calls_member [of "fst c" svc ctx' "stored_asanaTaskId (syncKey ctx') ?st'"]
      by auto
  qed
  show "wired svc \<and> task_enabled svc \<and> truthy (stored_asanaTaskId (syncKey ctx) st) \<longrightarrow>
        stored_asanaTaskId (syncKey ctx) ?st' = stored_asanaTaskId (syncKey ctx) st
      \<and> count_calls is_task_create (new_calls st ?st') = 0
      \<and> (\<forall>r\<in>set (new_requests st ?st'). \<not> is_graph_request r \<longrightarrow> \<not> is_create_request r)
      \<and> (\<forall>w' now' ctx'. syncKey ctx' = syncKey ctx \<longrightarrow>
            count_calls is_task_create (new_calls ?st' (syncContext svc w' now' ctx' ?st')) = 0
          \<and> count_calls is_task_update (new_calls ?st' (syncContext svc w' now' ctx' ?st')) = 1
          \<and> (\<forall>c\<in>set (new_calls ?st' (syncContext svc w' now' ctx' ?st')).
                is_task_call (fst c) \<longrightarrow>
                updated_id (fst c) = stored_asanaTaskId (syncKey ctx) st))"
  proof (intro impI conjI allI ballI)
    assume a: "wired svc \<and> task_enabled svc \<and> truthy (stored_asanaTaskId (syncKey ctx) st)"
    then have en: "as_config_enabled (asana (config svc))"
      by (simp add: wired_task)
    from a show k: "stored_asanaTaskId (syncKey ctx) ?st' = stored_asanaTaskId (syncKey ctx) st"
      by (simp add: stored_asana_kept)
    from a show "count_calls is_task_create (new_calls st ?st') = 0"
      by (simp add: syncContext_counts calendar_calls_filter task_calls_filter)
    {
      fix r assume "r \<in> set (new_requests st ?st')" "\<not> is_graph_request r"
      with a l show "\<not> is_create_request r" by auto
    }
    fix w' now' ctx'
    assume same: "syncKey ctx' = syncKey ctx"
    with k a have t: "truthy (stored_asanaTaskId (syncKey ctx') ?st')"
      and v: "stored_asanaTaskId (syncKey ctx') ?st' = stored_asanaTaskId (syncKey ctx) st"
      by simp_all
    show "count_calls is_task_create (new_calls ?st' (syncContext svc w' now' ctx' ?st')) = 0"
      using t by (simp add: syncContext_counts calendar_calls_filter task_calls_filter)
    show "count_calls is_task_update (new_calls ?st' (syncContext svc w' now' ctx' ?st')) = 1"
      using t a en
      by (simp add: syncContext_counts calendar_calls_filter task_calls_filter
            length_task_calls)
    fix c
    assume "c \<in> set (new_calls ?st' (syncContext svc w' now' ctx' ?st'))"
      "is_task_call (fst c)"
    then show "updated_id (fst c) = stored_asanaTaskId (syncKey ctx) st"
      using new_calls_member [of c ?st' svc w' now' ctx'] t v
        calendar_calls_member [of "fst c" svc ctx' now' "stored_ms365EventId (syncKey ctx') ?st'"]
        task_calls_member [of "fst c" svc ctx' "stored_asanaTaskId (syncKey ctx') ?st'"]
      by auto
  qed
qed

text \<open>
  Claim C7 on a map that holds both ids while both remote systems fail: both updates
  return false, both ids are kept, and the next reconciliation makes the two updates
  again and no create.
\<close>

theorem update_never_creates_witness:
  "fst (updateCalendarEvent (ms365Service demo_service) world_down ''ann@example.com''
          ''evt-1'' ctx_one (Valid 1736508600000) (Valid 1736512200000) []) = False
   \<and> snd (updateCalendarEvent (ms365Service demo_service) world_down ''ann@example.com''
          ''evt-1'' ctx_one (Valid 1736508600000) (Valid 1736512200000) []) \<noteq> []
   \<and> fst (updateTask (asanaService demo_service) world_down ''evt-1'' ctx_one None []) = False
   \<and> snd (updateTask (asanaService demo_service) world_down ''evt-1'' ctx_one None []) \<noteq> []
   \<and> wired demo_service \<and> calendar_enabled demo_service \<and> task_enabled demo_service
   \<and> truthy (stored_ms365EventId (syncKey ctx_one) synced)
   \<and> truthy (stored_asanaTaskId (syncKey ctx_one) synced)
   \<and> new_calls synced (syncContext demo_service world_down 0 ctx_one synced)
       = [(UpdateCalendarEvent ''ann@example.com'' ''evt-1'' ctx_one (Valid 1736508600000) (Valid 1736512200000),
           Success False),
          (UpdateTask ''task-1'' ctx_one (Some ''ann@example.com''), Success False)]
   \<and> stored_ms365EventId (syncKey ctx_one) (syncContext demo_service world_down 0 ctx_one synced)
       = Some ''evt-1''
   \<and> stored_asanaTaskId (syncKey ctx_one) (syncContext demo_service world_down 0 ctx_one synced)
       = Some ''task-1''
   \<and> count_calls is_calendar_create
        (new_calls (syncContext demo_service world_down 0 ctx_one synced)
           (syncContext demo_service world_down 7 ctx_one
              (syncContext demo_service world_down 0 ctx_one synced))) = 0
   \<and> count_calls is_calendar_update
        (new_calls (syncContext demo_service world_down 0 ctx_one synced)
           (syncContext demo_service world_down 7 ctx_one
              (syncContext demo_service world_down 0 ctx_one synced))) = 1
   \<and> count_calls is_task_create
        (new_calls (syncContext demo_service world_down 0 ctx_one synced)
           (syncContext demo_service world_down 7 ctx_one
              (syncContext demo_service world_down 0 ctx_one synced))) = 0
   \<and> count_calls is_task_update
        (new_calls (syncContext demo_service world_down 0 ctx_one synced)
           (syncContext demo_service world_down 7 ctx_one
              (syncContext demo_service world_down 0 ctx_one synced))) = 1"
proof -
  let ?st' = "syncContext demo_service world_down 0 ctx_one synced"
  note T = update_never_creates [where ms = "ms365Service demo_service" and w = world_down
      and u = "''ann@example.com''" and i = "''evt-1''" and ctx = ctx_one
      and s = "Valid 1736508600000" and e = "Valid 1736512200000" and sn = "[]"
      and asn = "asanaService demo_service" and a = None and svc = demo_service
      and st = synced and now = 0]
  have t: "truthy (stored_ms365EventId (syncKey ctx_one) synced)"
          "truthy (stored_asanaTaskId (syncKey ctx_one) synced)"
    by (simp_all add: synced_stored truthy_def)
  have c: "new_calls synced ?st'
       = [(UpdateCalendarEvent ''ann@example.com'' ''evt-1'' ctx_one (Valid 1736508600000) (Valid 1736512200000),
           Success False),
          (UpdateTask ''task-1'' ctx_one (Some ''ann@example.com''), Success False)]"
    by (simp add: run_defs)
  have f: "fst (updateCalendarEvent (ms365Service demo_service) world_down ''ann@example.com''
          ''evt-1'' ctx_one (Valid 1736508600000) (Valid 1736512200000) []) = False"
    "fst (updateTask (asanaService demo_service) world_down ''evt-1'' ctx_one None []) = False"
    by (simp_all add: demo_updateCalendarEvent demo_updateTask)
  have n: "snd (updateCalendarEvent (ms365Service demo_service) world_down ''ann@example.com''
          ''evt-1'' ctx_one (Valid 1736508600000) (Valid 1736512200000) []) \<noteq> []"
    "snd (updateTask (asanaService demo_service) world_down ''evt-1'' ctx_one None []) \<noteq> []"
    by (simp_all add: updateCalendarEvent_def updateTask_def makeRequest_def Let_def
          ms_config_enabled_def as_config_enabled_def accessToken_def truthy_def demo_defs
          due_on_def toISOString_Valid maxTime_def)
  from T [THEN conjunct2, THEN conjunct2, THEN conjunct1] demo_enabled t
  have cal: "stored_ms365EventId (syncKey ctx_one) ?st' = Some ''evt-1''"
    "count_calls is_calendar_create
        (new_calls ?st' (syncContext demo_service world_down 7 ctx_one ?st')) = 0"
    "count_calls is_calendar_update
        (new_calls ?st' (syncContext demo_service world_down 7 ctx_one ?st')) = 1"
    by (simp_all add: synced_stored ctx_one_contributors)
  from T [THEN conjunct2, THEN conjunct2, THEN conjunct2] demo_enabled t
  have task: "stored_asanaTaskId (syncKey ctx_one) ?st' = Some ''task-1''"
    "count_calls is_task_create
        (new_calls ?st' (syncContext demo_service world_down 7 ctx_one ?st')) = 0"
    "count_calls is_task_update
        (new_calls ?st' (syncContext demo_service world_down 7 ctx_one ?st')) = 1"
    by (simp_all add: synced_stored)
  from f n demo_enabled t c cal task show ?thesis by simp
qed

text \<open>
  Claim C8 says that for every context the calendar event runs from 30 minutes before the
  due date to 30 minutes after it. Counterexample: the due date \<^verbatim>\<open>new Date(8.64e15)\<close>, the
  last valid date. \<^verbatim>\<open>new Date(dueDate.getTime() + 30 * 60 * 1000)\<close> is beyond the range of
  \<^verbatim>\<open>Date\<close> and so an Invalid Date: the create call is made with that end time, not with
  the due date plus 30 minutes, \<^verbatim>\<open>toISOString\<close> throws inside the adapter, the call returns
  null and no request is sent.
\<close>

theorem calendar_event_window_counterexample:
  "dueDate ctx_far = Some (Valid 8640000000000000)
   \<and> getTime (Valid 8640000000000000) = Some 8640000000000000
   \<and> calendar_enabled asana_off_service
   \<and> new_calls initial (syncContext asana_off_service world_ok 0 ctx_far initial)
       = [(CreateCalendarEvent ''ann@example.com'' ctx_far (Valid 8639999998200000) Invalid,
           RemoteId None)]
   \<and> window (CreateCalendarEvent ''ann@example.com'' ctx_far (Valid 8639999998200000) Invalid)
       \<noteq> Some (Valid (8640000000000000 - 30 * 60 * 1000),
                Valid (8640000000000000 + 30 * 60 * 1000))
   \<and> new_requests initial (syncContext asana_off_service world_ok 0 ctx_far initial) = []"
proof -
  have "dueDate ctx_far = Some (Valid 8640000000000000)"
    by (simp add: ctx_far_def)
  then show ?thesis
    by (simp add: far_requests off_gates getTime_def maxTime_def)
qed

text \<open>
  Claim C8, amended: when the context has a valid due date and the instants 30 minutes
  before and after it are within the range of \<^verbatim>\<open>Date\<close> (8.64e15 milliseconds on either
  side of the epoch), every calendar call of a reconciliation carries the window from 30
  minutes before the due date to 30 minutes after it; when it has no due date and the
  instants 24 and 25 hours after the current time are within that range, every calendar
  call carries the window that starts 24 hours after the current time and lasts one
  hour. In both cases every Graph request carries the two instants as ISO strings with
  the time zone UTC. For the due date 2025-01-10T12:00:00Z the window is 11:30 to 12:30
  UTC.
\<close>

theorem calendar_event_window:
  "(\<forall>t. dueDate ctx = Some (Valid t)
        \<and> - maxTime \<le> t - 30 * 60 * 1000 \<and> t + 30 * 60 * 1000 \<le> maxTime \<longrightarrow>
      (\<forall>c\<in>set (new_calls st (syncContext svc w now ctx st)). is_calendar_call (fst c) \<longrightarrow>
          window (fst c) = Some (Valid (t - 30 * 60 * 1000), Valid (t + 30 * 60 * 1000)))
    \<and> (\<forall>r\<in>set (new_requests st (syncContext svc w now ctx st)). is_graph_request r \<longrightarrow>
          (\<exists>ev. event_of r = Some ev
             \<and> start_dateTime ev = isoString (t - 30 * 60 * 1000) \<and> start_timeZone ev = ''UTC''
             \<and> end_dateTime ev = isoString (t + 30 * 60 * 1000) \<and> end_timeZone ev = ''UTC'')))
   \<and> (dueDate ctx = None
        \<and> - maxTime \<le> now + 24 * 60 * 60 * 1000
        \<and> now + 24 * 60 * 60 * 1000 + 60 * 60 * 1000 \<le> maxTime \<longrightarrow>
      (\<forall>c\<in>set (new_calls st (syncContext svc w now ctx st)). is_calendar_call (fst c) \<longrightarrow>
          window (fst c) = Some (Valid (now + 24 * 60 * 60 * 1000),
                                 Valid (now + 24 * 60 * 60 * 1000 + 60 * 60 * 1000)))
    \<and> (\<forall>r\<in>set (new_requests st (syncContext svc w now ctx st)). is_graph_request r \<longrightarrow>
          (\<exists>ev. event_of r = Some ev
             \<and> start_dateTime ev = isoString (now + 24 * 60 * 60 * 1000)
             \<and> start_timeZone ev = ''UTC''
             \<and> end_dateTime ev = isoString (now + 24 * 60 * 60 * 1000 + 60 * 60 * 1000)
             \<and> end_timeZone ev = ''UTC'')))
   \<and> (dueDate ctx = Some (Valid 1736510400000) \<longrightarrow>
        isoString 1736510400000 = ''2025-01-10T12:00:00.000Z''
      \<and> (\<forall>r\<in>set (new_requests st (syncContext svc w now ctx st)). is_graph_request r \<longrightarrow>
            (\<exists>ev. event_of r = Some ev
               \<and> start_dateTime ev = ''2025-01-10T11:30:00.000Z'' \<and> start_timeZone ev = ''UTC''
               \<and> end_dateTime ev = ''2025-01-10T12:30:00.000Z'' \<and> end_timeZone ev = ''UTC'')))"
proof -
  let ?st' = "syncContext svc w now ctx st"
  have calls: "window (fst c) = Some (eventWindow ctx now)"
    if "c \<in> set (new_calls st ?st')" "is_calendar_call (fst c)" for c
    using new_calls_member [OF that(1)] that(2) calendar_calls_member task_calls_member
    by blast
  obtain l1 l2 where l: "new_requests st ?st' = l1 @ l2"
     "\<forall>r\<in>set l1. is_graph_request r
            \<and> window_event (fst (eventWindow ctx now)) (snd (eventWindow ctx now)) r"
     "\<forall>r\<in>set l2. \<not> is_graph_request r"
    using syncContext_requests [of st svc w now ctx] by blast
  have reqs: "window_event (fst (eventWindow ctx now)) (snd (eventWindow ctx now)) r"
    if "r \<in> set (new_requests st ?st')" "is_graph_request r" for r
    using that l by auto
  have both: "(\<forall>c\<in>set (new_calls st ?st'). is_calendar_call (fst c) \<longrightarrow>
          window (fst c) = Some (Valid s, Valid e))
    \<and> (\<forall>r\<in>set (new_requests st ?st'). is_graph_request r \<longrightarrow>
          (\<exists>ev. event_of r = Some ev
             \<and> start_dateTime ev = isoString s \<and> start_timeZone ev = ''UTC''
             \<and> end_dateTime ev = isoString e \<and> end_timeZone ev = ''UTC''))"
    if "eventWindow ctx now = (Valid s, Valid e)" "\<bar>s\<bar> \<le> maxTime" "\<bar>e\<bar> \<le> maxTime" for s e
    using calls reqs that window_event_Valid [of s e] by auto
  have due: "(\<forall>c\<in>set (new_calls st ?st'). is_calendar_call (fst c) \<longrightarrow>
          window (fst c) = Some (Valid (t - 30 * 60 * 1000), Valid (t + 30 * 60 * 1000)))
    \<and> (\<forall>r\<in>set (new_requests st ?st'). is_graph_request r \<longrightarrow>
          (\<exists>ev. event_of r = Some ev
             \<and> start_dateTime ev = isoString (t - 30 * 60 * 1000) \<and> start_timeZone ev = ''UTC''
             \<and> end_dateTime ev = isoString (t + 30 * 60 * 1000) \<and> end_timeZone ev = ''UTC''))"
    if "dueDate ctx = Some (Valid t)" "- maxTime \<le> t - 30 * 60 * 1000"
       "t + 30 * 60 * 1000 \<le> maxTime" for t
    using that by (intro both eventWindow_due) (simp_all add: abs_le_iff)
  have dflt: "(\<forall>c\<in>set (new_calls st ?st'). is_calendar_call (fst c) \<longrightarrow>
          window (fst c) = Some (Valid (now + 24 * 60 * 60 * 1000),
                                 Valid (now + 24 * 60 * 60 * 1000 + 60 * 60 * 1000)))
    \<and> (\<forall>r\<in>set (new_requests st ?st'). is_graph_request r \<longrightarrow>
          (\<exists>ev. event_of r = Some ev
             \<and> start_dateTime ev = isoString (now + 24 * 60 * 60 * 1000)
             \<and> start_timeZone ev = ''UTC''
             \<and> end_dateTime ev = isoString (now + 24 * 60 * 60 * 1000 + 60 * 60 * 1000)
             \<and> end_timeZone ev = ''UTC''))"
    if "dueDate ctx = None" "- maxTime \<le> now + 24 * 60 * 60 * 1000"
       "now + 24 * 60 * 60 * 1000 + 60 * 60 * 1000 \<le> maxTime"
    using that by (intro both eventWindow_default) (simp_all add: abs_le_iff)
  have ex: "\<forall>r\<in>set (new_requests st ?st'). is_graph_request r \<longrightarrow>
            (\<exists>ev. event_of r = Some ev
               \<and> start_dateTime ev = ''2025-01-10T11:30:00.000Z'' \<and> start_timeZone ev = ''UTC''
               \<and> end_dateTime ev = ''2025-01-10T12:30:00.000Z'' \<and> end_timeZone ev = ''UTC'')"
    if "dueDate ctx = Some (Valid 1736510400000)"
    using due [OF that, THEN conjunct2] by (simp add: maxTime_def iso_example)
  show ?thesis
    using due dflt ex iso_example(1) by blast
qed

text \<open>
  Claim C8, amended, on the context with one contributor and the due date
  2025-01-10T12:00:00Z.
\<close>

theorem calendar_event_window_witness:
  "dueDate ctx_one = Some (Valid 1736510400000)
   \<and> - maxTime \<le> 1736510400000 - 30 * 60 * 1000 \<and> 1736510400000 + 30 * 60 * 1000 \<le> maxTime
   \<and> new_calls initial (syncContext asana_off_service world_ok 0 ctx_one initial)
       = [(CreateCalendarEvent ''ann@example.com'' ctx_one (Valid 1736508600000)
             (Valid 1736512200000), RemoteId (Some ''evt-1''))]
   \<and> window (CreateCalendarEvent ''ann@example.com'' ctx_one (Valid 1736508600000)
               (Valid 1736512200000))
       = Some (Valid (1736510400000 - 30 * 60 * 1000), Valid (1736510400000 + 30 * 60 * 1000))
   \<and> (\<exists>r\<in>set (new_requests initial (syncContext asana_off_service world_ok 0 ctx_one initial)).
         is_graph_request r
       \<and> (\<exists>ev. event_of r = Some ev
            \<and> start_dateTime ev = ''2025-01-10T11:30:00.000Z'' \<and> start_timeZone ev = ''UTC''
            \<and> end_dateTime ev = ''2025-01-10T12:30:00.000Z'' \<and> end_timeZone ev = ''UTC''))
   \<and> isoString 1736510400000 = ''2025-01-10T12:00:00.000Z''"
proof -
  let ?st' = "syncContext asana_off_service world_ok 0 ctx_one initial"
  let ?req = "GraphPost ''/users/ann@example.com/calendar/events''
          \<lparr>subject = eventSubject ctx_one, body_contentType = ''HTML'',
           body_content = eventBody ctx_one,
           start_dateTime = ''2025-01-10T11:30:00.000Z'', start_timeZone = ''UTC'',
           end_dateTime = ''2025-01-10T12:30:00.000Z'', end_timeZone = ''UTC'',
           isReminderOn = Some True, reminderMinutesBeforeStart = Some 15\<rparr>"
  have d: "dueDate ctx_one = Some (Valid 1736510400000)"
    by (simp add: ctx_one_def)
  have rg: "- maxTime \<le> 1736510400000 - 30 * 60 * 1000" "1736510400000 + 30 * 60 * 1000 \<le> maxTime"
    by (simp_all add: maxTime_def)
  note c = asana_off_calls
  have r: "?req \<in> set (new_requests initial ?st')"
    by (simp add: asana_off_requests)
  note T = calendar_event_window [of ctx_one initial asana_off_service world_ok 0]
  have w: "window (CreateCalendarEvent ''ann@example.com'' ctx_one (Valid 1736508600000)
               (Valid 1736512200000))
       = Some (Valid (1736510400000 - 30 * 60 * 1000), Valid (1736510400000 + 30 * 60 * 1000))"
    using T [THEN conjunct1, rule_format, of 1736510400000, THEN conjunct1] c d rg
    by (simp add: is_calendar_call_def)
  have e: "\<exists>ev. event_of ?req = Some ev
            \<and> start_dateTime ev = ''2025-01-10T11:30:00.000Z'' \<and> start_timeZone ev = ''UTC''
            \<and> end_dateTime ev = ''2025-01-10T12:30:00.000Z'' \<and> end_timeZone ev = ''UTC''"
    and i: "isoString 1736510400000 = ''2025-01-10T12:00:00.000Z''"
    using T [THEN conjunct2, THEN conjunct2] d r by auto
  from d rg c w e i r show ?thesis
    by (intro conjI bexI [OF _ r]) simp_all
qed

text \<open>
  Claim C9 says that with the enrichable fields absent a reconciliation still issues the
  create or update call of every enabled adapter. Counterexample: with no contributors,
  workflow step or due date and the calendar adapter enabled, no calendar call is made
  (\<^verbatim>\<open>syncToMicrosoft365\<close> returns early when there is no contributor).
\<close>

theorem bare_context_skips_calendar_counterexample:
  "contributors ctx_bare = None \<and> workflowStep ctx_bare = None \<and> dueDate ctx_bare = None
   \<and> calendar_enabled demo_service
   \<and> count_calls is_calendar_call
        (new_calls initial (syncContext demo_service world_ok 0 ctx_bare initial)) = 0"
  by (simp add: syncContext_counts demo_enabled calendar_calls_filter task_calls_filter
        length_calendar_calls contributorList_def ctx_bare_def)

text \<open>
  Claim C9, amended: with no contributors (and whatever the workflow step and due date,
  absent included) a reconciliation does not abort: when the task adapter is enabled it
  makes exactly one call, the task adapter's create or update with no assignee, and it
  makes no calendar call.
\<close>

theorem bare_context_still_syncs_task:
  assumes "contributorList ctx = []" and "wired svc"
  shows "count_calls is_calendar_call (new_calls st (syncContext svc w now ctx st)) = 0
       \<and> (task_enabled svc \<longrightarrow>
            count_calls is_task_call (new_calls st (syncContext svc w now ctx st)) = 1
          \<and> map fst (new_calls st (syncContext svc w now ctx st))
              = [if truthy (stored_asanaTaskId (syncKey ctx) st)
                 then UpdateTask (the (stored_asanaTaskId (syncKey ctx) st)) ctx None
                 else CreateTask ctx None])"
  using assms wired_task [OF assms(2)]
  by (simp add: syncContext_counts syncContext_new_calls calendar_calls_filter task_calls_filter
        length_calendar_calls length_task_calls)
     (simp add: calendar_calls_def task_calls_def task_call_def firstContributor_def)

text \<open>
  Claim C9, amended, from the empty map with the context that has no enrichable field.
\<close>

theorem bare_context_still_syncs_task_witness:
  "contributorList ctx_bare = [] \<and> wired demo_service \<and> task_enabled demo_service
   \<and> count_calls is_calendar_call
        (new_calls initial (syncContext demo_service world_ok 0 ctx_bare initial)) = 0
   \<and> count_calls is_task_call
        (new_calls initial (syncContext demo_service world_ok 0 ctx_bare initial)) = 1
   \<and> map fst (new_calls initial (syncContext demo_service world_ok 0 ctx_bare initial))
        = [CreateTask ctx_bare None]"
proof -
  have a: "contributorList ctx_bare = []"
    by (simp add: contributorList_def ctx_bare_def)
  have "\<not> truthy (stored_asanaTaskId (syncKey ctx_bare) initial)"
    by (simp add: stored_asanaTaskId_def read_asanaTaskId_def initial_def truthy_def)
  with bare_context_still_syncs_task [OF a demo_enabled(3), of initial world_ok 0] a demo_enabled
  show ?thesis by simp
qed

text \<open>
  Claim C10: after \<^verbatim>\<open>syncContext\<close> the map has an entry for the key, and its two ids are
  those of the record that was bound to the key at the start of the call, as that record
  is at the end of the call (it is the object the two steps mutate); when the key had no
  entry at the start, both ids of the entry are undefined, even if creates succeeded
  during the call. The address bound to the key at the start is an allocated one.
\<close>

theorem syncContext_final_entry:
  assumes "\<forall>a. syncMap st (syncKey ctx) = Some a \<longrightarrow> a < nextAddr st"
  shows "getSyncStatus (contentItemId ctx) (languageId ctx) (syncContext svc w now ctx st)
           = Some \<lparr>ms365EventId =
                     read_ms365EventId (syncMap st (syncKey ctx)) (syncContext svc w now ctx st),
                   asanaTaskId =
                     read_asanaTaskId (syncMap st (syncKey ctx)) (syncContext svc w now ctx st)\<rparr>
         \<and> (syncMap st (syncKey ctx) = None \<longrightarrow>
              getSyncStatus (contentItemId ctx) (languageId ctx) (syncContext svc w now ctx st)
                = Some \<lparr>ms365EventId = None, asanaTaskId = None\<rparr>)"
proof (cases "syncMap st (syncKey ctx)")
  case None
  then show ?thesis
    by (simp add: getSyncStatus_key syncContext_eq Let_def
          read_ms365EventId_def read_asanaTaskId_def)
next
  case (Some a)
  with assms have "a < nextAddr st" by simp
  with at_nextAddr [of st svc w now ctx] have "a \<noteq> nextAddr (after_tasks svc w now ctx st)"
    by simp
  with Some show ?thesis
    by (simp add: getSyncStatus_key syncContext_eq Let_def
          read_ms365EventId_def read_asanaTaskId_def)
qed

text \<open>
  Claim C10 from the empty map, where both creates return an id and the entry ends with
  none, and from a map whose entry for the key holds no id, where the ids written during
  the call are in the entry at the end.
\<close>

theorem syncContext_final_entry_witness:
  "syncMap initial (syncKey ctx_one) = None
   \<and> map snd (new_calls initial (syncContext demo_service world_ok 0 ctx_one initial))
       = [RemoteId (Some ''evt-1''), RemoteId (Some ''task-1'')]
   \<and> getSyncStatus ''item-1'' ''en'' (syncContext demo_service world_ok 0 ctx_one initial)
       = Some \<lparr>ms365EventId = None, asanaTaskId = None\<rparr>
   \<and> syncMap pending (syncKey ctx_one) = Some 0 \<and> 0 < nextAddr pending
   \<and> heap (syncContext demo_service world_ok 0 ctx_one pending) 0
       = \<lparr>ms365EventId = Some ''evt-1'', asanaTaskId = Some ''task-1''\<rparr>
   \<and> getSyncStatus ''item-1'' ''en'' (syncContext demo_service world_ok 0 ctx_one pending)
       = Some \<lparr>ms365EventId = Some ''evt-1'', asanaTaskId = Some ''task-1''\<rparr>"
proof -
  have a: "\<forall>a. syncMap initial (syncKey ctx_one) = Some a \<longrightarrow> a < nextAddr initial"
    and n: "syncMap initial (syncKey ctx_one) = None"
    by (simp_all add: initial_def)
  have b: "\<forall>a. syncMap pending (syncKey ctx_one) = Some a \<longrightarrow> a < nextAddr pending"
    and p: "syncMap pending (syncKey ctx_one) = Some 0"
    by (simp_all add: pending_def syncKey_def ctx_one_def)
  have ids: "contentItemId ctx_one = ''item-1''" "languageId ctx_one = ''en''"
    by (simp_all add: ctx_one_def)
  have c: "map snd (new_calls initial (syncContext demo_service world_ok 0 ctx_one initial))
       = [RemoteId (Some ''evt-1''), RemoteId (Some ''task-1'')]"
    by (simp add: run_defs)
  have h: "heap (syncContext demo_service world_ok 0 ctx_one pending) 0
       = \<lparr>ms365EventId = Some ''evt-1'', asanaTaskId = Some ''task-1''\<rparr>"
    by (simp add: run_defs pending_def)
  from syncContext_final_entry [OF a, of demo_service world_ok 0, THEN conjunct2] n
  have 1: "getSyncStatus ''item-1'' ''en'' (syncContext demo_service world_ok 0 ctx_one initial)
       = Some \<lparr>ms365EventId = None, asanaTaskId = None\<rparr>"
    by (simp add: ids)
  from syncContext_final_entry [OF b, of demo_service world_ok 0, THEN conjunct1] p h
  have 2: "getSyncStatus ''item-1'' ''en'' (syncContext demo_service world_ok 0 ctx_one pending)
       = Some \<lparr>ms365EventId = Some ''evt-1'', asanaTaskId = Some ''task-1''\<rparr>"
    by (simp add: ids read_ms365EventId_def read_asanaTaskId_def)
  have "0 < nextAddr pending" by (simp add: pending_def)
  with n p c h 1 2 show ?thesis by simp
qed

end
